theory Spec2Isabelle
  imports Main "HOL-Library.Word"
begin

section \<open>JavaScript values and errors\<close>

text \<open>
  The data that flows through \<open>conversable_agent.js\<close>: messages, function-call
  payloads, decoded JSON arguments and replies. Plain data only: a value that carries
  methods of its own (a \<open>Map\<close> instance, a class instance) is not of this type.
  A number is an integer from \<open>-2^53\<close> up to \<open>2^53 - 1\<close>, which a double holds exactly
  and \<open>String\<close> prints in decimal (exit codes, decoded integers), or \<open>NaN\<close>; a fraction, a
  larger number and an infinity are not of this type, and no definition below computes
  with numbers.
\<close>

datatype jsval =
    JUndefined
  | JNull
  | JBool bool
  | JNum "54 word"
  | JNaN
  | JStr string
  | JArr "jsval list"
  | JObj "(string \<times> jsval) list"

text \<open>A thrown value: the constructor is the error class, the string its message.\<close>

datatype js_error =
    Error string
  | TypeError string
  | SyntaxError string
  | ReferenceError string

abbreviation NL :: char where "NL \<equiv> CHR 0x0A"
abbreviation TAB :: char where "TAB \<equiv> CHR 0x09"
abbreviation BSLASH :: char where "BSLASH \<equiv> CHR 0x5C"
abbreviation DQUOTE :: char where "DQUOTE \<equiv> CHR 0x22"
abbreviation APOS :: char where "APOS \<equiv> CHR 0x27"

section \<open>Operations of the language\<close>

text \<open>Truthiness, as \<open>if (v)\<close>, \<open>!v\<close> and \<open>v || w\<close> read a value.\<close>

fun truthy :: "jsval \<Rightarrow> bool" where
  "truthy JUndefined = False"
| "truthy JNull = False"
| "truthy (JBool b) = b"
| "truthy (JNum n) = (n \<noteq> 0)"
| "truthy JNaN = False"
| "truthy (JStr s) = (s \<noteq> [])"
| "truthy (JArr xs) = True"
| "truthy (JObj ps) = True"

text \<open>
  An object is its list of own properties, in insertion order; reading a property that
  is not there gives \<open>undefined\<close>. The keys this program reads (\<open>content\<close>,
  \<open>function_call\<close>, \<open>name\<close>, \<open>args\<close>, \<open>context\<close>, \<open>role\<close>, \<open>get\<close>, \<open>exitcode\<close>,
  \<open>logs\<close>, \<open>image\<close>) are not properties of \<open>Object.prototype\<close>, nor of a string, number,
  boolean or array.
\<close>

type_synonym obj = "(string \<times> jsval) list"

definition obj_get :: "obj \<Rightarrow> string \<Rightarrow> jsval" where
  "obj_get ps k = (case map_of ps k of Some v \<Rightarrow> v | None \<Rightarrow> JUndefined)"

text \<open>\<open>v[k]\<close> on any value: reading a property of \<open>undefined\<close> or \<open>null\<close> throws.\<close>

fun get_prop :: "jsval \<Rightarrow> string \<Rightarrow> js_error + jsval" where
  "get_prop JUndefined k =
     Inl (TypeError (''Cannot read properties of undefined (reading '' @ [APOS] @ k @ [APOS] @ '')''))"
| "get_prop JNull k =
     Inl (TypeError (''Cannot read properties of null (reading '' @ [APOS] @ k @ [APOS] @ '')''))"
| "get_prop (JObj ps) k = Inr (obj_get ps k)"
| "get_prop v k = Inr JUndefined"

text \<open>
  Calling a value: none of the plain data values is a function, so the call throws.
\<close>

definition js_call :: "string \<Rightarrow> jsval \<Rightarrow> jsval list \<Rightarrow> js_error + jsval" where
  "js_call what f argv = Inl (TypeError (what @ '' is not a function''))"

text \<open>
  \<open>String(v)\<close> and \<open>`${v}`\<close>. A number of this model prints in decimal; \<open>sint\<close> reads
  the integer that the 54 bits hold.
\<close>

fun digits_of :: "nat \<Rightarrow> string" where
  "digits_of n =
     (if n < 10 then [''0123456789'' ! n]
      else digits_of (n div 10) @ [''0123456789'' ! (n mod 10)])"

definition show_int :: "int \<Rightarrow> string" where
  "show_int i = (if i < 0 then CHR ''-'' # digits_of (nat (- i)) else digits_of (nat i))"

fun to_string :: "jsval \<Rightarrow> string" and array_join :: "jsval list \<Rightarrow> string" where
  "to_string JUndefined = ''undefined''"
| "to_string JNull = ''null''"
| "to_string (JBool b) = (if b then ''true'' else ''false'')"
| "to_string (JNum n) = show_int (sint n)"
| "to_string JNaN = ''NaN''"
| "to_string (JStr s) = s"
| "to_string (JArr xs) = array_join xs"
| "to_string (JObj ps) = ''[object Object]''"
| "array_join [] = []"
| "array_join (x # xs) =
     (if x = JUndefined \<or> x = JNull then [] else to_string x)
       @ (if xs = [] then [] else CHR '','' # array_join xs)"

text \<open>
  \<open>to_string\<close> is the conversion of a value that has one. A plain object is converted by
  the \<open>toString\<close> it inherits unless it has a property \<open>toString\<close> of its own, which in
  plain data is not a function: then \<open>valueOf\<close> is tried, gives no primitive, and the
  conversion throws. An array converts its elements. \<open>String_of\<close> is \<open>String(v)\<close>, \<open>`${v}`\<close>
  and the conversion of \<open>v\<close> to a property key, with that case.
\<close>

fun convertible :: "jsval \<Rightarrow> bool" where
  "convertible (JObj ps) = (map_of ps ''toString'' = None)"
| "convertible (JArr xs) = list_all convertible xs"
| "convertible v = True"

definition String_of :: "jsval \<Rightarrow> js_error + string" where
  "String_of v =
     (if convertible v then Inr (to_string v)
      else Inl (TypeError ''Cannot convert object to primitive value''))"

text \<open>\<open>String(e)\<close> of a thrown error: its class name, then its message.\<close>

fun error_string :: "js_error \<Rightarrow> string" where
  "error_string (Error m) = (if m = [] then ''Error'' else ''Error: '' @ m)"
| "error_string (TypeError m) = (if m = [] then ''TypeError'' else ''TypeError: '' @ m)"
| "error_string (SyntaxError m) = (if m = [] then ''SyntaxError'' else ''SyntaxError: '' @ m)"
| "error_string (ReferenceError m) =
     (if m = [] then ''ReferenceError'' else ''ReferenceError: '' @ m)"

text \<open>
  The spread of a call, \<open>f(...v)\<close>: \<open>v\<close> has to be iterable. An array spreads into its
  elements and a string into its characters; a number, a boolean, \<open>null\<close>, \<open>undefined\<close> and a
  plain object are not iterable, and the call throws before \<open>f\<close> is entered.
\<close>

definition not_iterable :: js_error where
  "not_iterable =
     TypeError ''Spread syntax requires ...iterable[Symbol.iterator] to be a function''"

fun spread :: "jsval \<Rightarrow> js_error + jsval list" where
  "spread (JArr xs) = Inr xs"
| "spread (JStr s) = Inr (map (\<lambda>c. JStr [c]) s)"
| "spread v = Inl not_iterable"

text \<open>
  The numbers held in the two \<open>Map\<close>s of counters and ceilings: \<open>Map.get\<close> gives \<open>undefined\<close> (here \<open>None\<close>) for an
  absent key. \<open>undefined\<close> converts to \<open>NaN\<close>, every comparison with \<open>NaN\<close> is false, and
  \<open>undefined + 1\<close> is \<open>NaN\<close>.
\<close>

datatype jsnum = Num int | NaN

definition js_ge :: "jsnum option \<Rightarrow> jsnum option \<Rightarrow> bool" where
  "js_ge a b = (case (a, b) of (Some (Num x), Some (Num y)) \<Rightarrow> y \<le> x | _ \<Rightarrow> False)"

definition js_add1 :: "jsnum option \<Rightarrow> jsnum" where
  "js_add1 a = (case a of Some (Num x) \<Rightarrow> Num (x + 1) | _ \<Rightarrow> NaN)"

text \<open>\<open>xs.splice(position, 0, x)\<close>: the start index is clamped as \<open>splice\<close> clamps it.\<close>

definition splice_insert :: "int \<Rightarrow> 'a \<Rightarrow> 'a list \<Rightarrow> 'a list" where
  "splice_insert position x xs =
     (let len = int (length xs);
          start = (if position < 0 then max (len + position) 0 else min position len)
      in take (nat start) xs @ [x] @ drop (nat start) xs)"

section \<open>formatJsonStr\<close>

text \<open>
  \<^verbatim>\<open>static formatJsonStr(jstr)\<close>: the \<open>forEach\<close> over \<open>jstr.split('')\<close> with the
  loop variables \<open>insideQuotes\<close> and \<open>lastChar\<close> as arguments; the value is
  \<open>result.join('')\<close>. \<open>lastChar\<close> is assigned the character read, before the
  character is replaced by its escape.
\<close>

fun formatJsonStr_loop :: "bool \<Rightarrow> char \<Rightarrow> string \<Rightarrow> string" where
  "formatJsonStr_loop insideQuotes lastChar [] = []"
| "formatJsonStr_loop insideQuotes lastChar (c # cs) =
     (let insideQuotes' =
            (if lastChar \<noteq> BSLASH \<and> c = DQUOTE then \<not> insideQuotes else insideQuotes)
      in if \<not> insideQuotes' \<and> c = NL then formatJsonStr_loop insideQuotes' c cs
         else (if insideQuotes' \<and> c = NL then [BSLASH, CHR ''n'']
               else if insideQuotes' \<and> c = TAB then [BSLASH, CHR ''t'']
               else [c]) @ formatJsonStr_loop insideQuotes' c cs)"

definition formatJsonStr :: "string \<Rightarrow> string" where
  "formatJsonStr jstr = formatJsonStr_loop False (CHR '' '') jstr"

subsection \<open>What the specification asks of the re-escaping\<close>

text \<open>
  Quoted spans as JSON has them: outside a string a double quote opens a string; inside
  a string a backslash escapes the character after it, and a double quote that is not
  escaped closes the string. A character is inside a quoted span when it is read inside
  a string, escaped or not.
\<close>

datatype quoting = Outside | Inside | Escaped

fun quoting_step :: "quoting \<Rightarrow> char \<Rightarrow> quoting" where
  "quoting_step Outside c = (if c = DQUOTE then Inside else Outside)"
| "quoting_step Inside c =
     (if c = DQUOTE then Outside else if c = BSLASH then Escaped else Inside)"
| "quoting_step Escaped c = Inside"

text \<open>
  What the specification says of one character: inside a quoted span a newline and a tab
  are escaped; outside, both are dropped.
\<close>

definition rendered_as_specified :: "bool \<Rightarrow> char \<Rightarrow> string" where
  "rendered_as_specified inside c =
     (if c = NL then (if inside then [BSLASH, CHR ''n''] else [])
      else if c = TAB then (if inside then [BSLASH, CHR ''t''] else [])
      else [c])"

text \<open>The same with a tab outside a quoted span kept.\<close>

definition rendered :: "bool \<Rightarrow> char \<Rightarrow> string" where
  "rendered inside c =
     (if c = NL then (if inside then [BSLASH, CHR ''n''] else [])
      else if c = TAB then (if inside then [BSLASH, CHR ''t''] else [c])
      else [c])"

fun render_from :: "(bool \<Rightarrow> char \<Rightarrow> string) \<Rightarrow> quoting \<Rightarrow> string \<Rightarrow> string" where
  "render_from r q [] = []"
| "render_from r q (c # cs) = r (q \<noteq> Outside) c @ render_from r (quoting_step q c) cs"

definition render_all :: "(bool \<Rightarrow> char \<Rightarrow> string) \<Rightarrow> string \<Rightarrow> string" where
  "render_all r s = render_from r Outside s"

text \<open>
  The argument strings in which a double quote directly after a backslash occurs only as
  an escaped quote of a string, that is, only where the backslash is read inside a string
  and is not itself escaped. The second argument is the character read before.
\<close>

fun escaped_quotes_from :: "quoting \<Rightarrow> char \<Rightarrow> string \<Rightarrow> bool" where
  "escaped_quotes_from q before [] = True"
| "escaped_quotes_from q before (c # cs) =
     ((if c = DQUOTE \<and> before = BSLASH then q = Escaped else True)
      \<and> escaped_quotes_from (quoting_step q c) c cs)"

definition backslash_quote_only_escapes :: "string \<Rightarrow> bool" where
  "backslash_quote_only_escapes s = escaped_quotes_from Outside (CHR '' '') s"

section \<open>The agent\<close>

text \<open>
  An agent reference, as a key of the agent's \<open>Map\<close>s and as \<open>sender\<close>: two references
  are the same agent when they are equal; \<open>ref_name\<close> is \<open>sender.name\<close>.
\<close>

datatype agent_ref = AgentRef (ref_id: nat) (ref_name: string)

text \<open>
  A trigger of a reply entry, by what \<open>typeof\<close>, \<open>Array.isArray\<close> and \<open>instanceof\<close> say
  of it: \<open>null\<close>, a string, a function (its result read as a boolean, or the error it
  throws), an array of triggers, an agent, another object, or a value of any other type
  (a number, a boolean, \<open>undefined\<close>), kept as the name that \<open>typeof\<close> gives it.
\<close>

datatype trigger =
    TNull
  | TString string
  | TFunction "agent_ref option \<Rightarrow> js_error + bool"
  | TArray "trigger list"
  | TAgent agent_ref
  | TObject
  | TOther string

text \<open>
  The class \<open>Agent\<close> used as a trigger is a function for \<open>typeof\<close>; calling a class
  without \<open>new\<close> throws.
\<close>

definition class_called_without_new :: js_error where
  "class_called_without_new =
     TypeError (''Class constructor Agent cannot be invoked without '' @ [APOS] @ ''new'' @ [APOS])"

definition Agent_class :: trigger where
  "Agent_class = TFunction (\<lambda>sender. Inl class_called_without_new)"

text \<open>
  A reply function, compared by reference: the five methods the constructor binds, or
  a function registered by a caller.
\<close>

datatype reply_func =
    GenerateOAIReply
  | GenerateCodeExecutionReply
  | GenerateFunctionCallReply
  | GenerateAsyncFunctionCallReply
  | CheckTerminationAndHumanReply
  | RegisteredFunc nat

record reply_entry =
  trigger :: trigger
  replyFunc :: reply_func
  config :: jsval
  initConfig :: jsval
  resetConfig :: "nat option"

text \<open>
  \<open>_codeExecutionConfig\<close>: \<open>false\<close>, or an object of which the program reads
  \<open>lastNMessages\<close> (\<open>"auto"\<close> or a count) and writes \<open>useDocker\<close>.
\<close>

datatype last_n = Auto | Count int

datatype code_exec_config =
    CodeExecFalse
  | CodeExecObj (lastNMessages: "last_n option") (useDocker: jsval)

type_synonym js_function = "jsval list \<Rightarrow> js_error + jsval"

text \<open>
  The fields of a \<open>ConversableAgent\<close> that the methods below read or write. A stored
  message is an object; \<open>functionMap\<close> holds the own properties of the object
  \<open>this._functionMap\<close>, each a function. The field \<open>_maxConsecutiveAutoReply\<close> is
  \<open>global_maxConsecutiveAutoReply\<close> here, the method of that name keeps the name.
\<close>

record agent =
  oaiMessages :: "agent_ref \<rightharpoonup> obj list"
  isTerminationMsg :: "jsval \<Rightarrow> js_error + bool"
  client :: "nat option"
  codeExecutionConfig :: code_exec_config
  humanInputMode :: string
  global_maxConsecutiveAutoReply :: jsnum
  consecutiveAutoReplyCounter :: "agent_ref \<rightharpoonup> jsnum"
  maxConsecutiveAutoReplyDict :: "agent_ref \<rightharpoonup> jsnum"
  functionMap :: "string \<Rightarrow> js_function option"
  defaultAutoReply :: jsval
  replyFuncList :: "reply_entry list"
  replyAtReceive :: "agent_ref \<rightharpoonup> bool"

subsection \<open>registerReply and the constructor\<close>

text \<open>
  \<open>{ ...config }\<close>: a new object with the own enumerable properties of \<open>config\<close>. These
  are the properties of an object, the elements of an array under their indices, the
  characters of a string under their indices, and none for \<open>null\<close>, \<open>undefined\<close>, a
  number or a boolean.
\<close>

definition indexed :: "jsval list \<Rightarrow> obj" where
  "indexed xs = map (\<lambda>i. (digits_of i, xs ! i)) [0..<length xs]"

fun object_spread :: "jsval \<Rightarrow> jsval" where
  "object_spread (JObj ps) = JObj ps"
| "object_spread (JArr xs) = JObj (indexed xs)"
| "object_spread (JStr s) = JObj (indexed (map (\<lambda>c. JStr [c]) s))"
| "object_spread v = JObj []"

text \<open>
  \<^verbatim>\<open>['string', 'function', 'object'].includes(typeof trigger) || Array.isArray(trigger)\<close>
\<close>

fun trigger_type_ok :: "trigger \<Rightarrow> bool" where
  "trigger_type_ok (TOther ty) = False"
| "trigger_type_ok t = True"

definition registerReply ::
  "agent \<Rightarrow> trigger \<Rightarrow> reply_func \<Rightarrow> int \<Rightarrow> jsval \<Rightarrow> nat option \<Rightarrow> js_error + agent" where
  "registerReply a trig func position cfg reset =
     (if \<not> trigger_type_ok trig
      then Inl (Error ''trigger must be a class, a string, an agent, a callable, or a list.'')
      else
        let replyFuncTuple =
              \<lparr> trigger = trig, replyFunc = func, config = object_spread cfg,
                initConfig = cfg, resetConfig = reset \<rparr>
        in Inr (a\<lparr> replyFuncList := splice_insert position replyFuncTuple (replyFuncList a) \<rparr>))"

text \<open>The default predicate of the constructor: \<^verbatim>\<open>x => x.get("content") === "TERMINATE"\<close>.\<close>

definition default_isTerminationMsg :: "jsval \<Rightarrow> js_error + bool" where
  "default_isTerminationMsg x =
     (case get_prop x ''get'' of
        Inl e \<Rightarrow> Inl e
      | Inr g \<Rightarrow>
          (case js_call ''x.get'' g [JStr ''content''] of
             Inl e \<Rightarrow> Inl e
           | Inr v \<Rightarrow> Inr (v = JStr ''TERMINATE'')))"

definition MAX_CONSECUTIVE_AUTO_REPLY :: jsnum where
  "MAX_CONSECUTIVE_AUTO_REPLY = Num 100"

text \<open>
  A chain of \<open>registerReply\<close> calls at the default position, default \<open>config\<close> and
  default \<open>resetConfig\<close>, stopping at the first that throws.
\<close>

fun register_all :: "agent \<Rightarrow> (trigger \<times> reply_func) list \<Rightarrow> js_error + agent" where
  "register_all a [] = Inr a"
| "register_all a ((trig, func) # rest) =
     (case registerReply a trig func 0 JNull None of
        Inl e \<Rightarrow> Inl e
      | Inr a' \<Rightarrow> register_all a' rest)"

text \<open>
  The constructor. Its parameters with a default are options (\<open>None\<close> for an argument
  left out or \<open>null\<close>); \<open>systemMessage\<close> and \<open>name\<close> reach no field kept here.
  \<open>OpenAIWrapper\<close> is not defined in this module (its import is commented out):
  \<open>new_OpenAIWrapper\<close> stands for \<^verbatim>\<open>new OpenAIWrapper(this.llmConfig)\<close>, which gives a
  client or throws.
\<close>

definition ConversableAgent ::
  "(jsval \<Rightarrow> js_error + nat) \<Rightarrow> (jsval \<Rightarrow> js_error + bool) option \<Rightarrow> jsnum option \<Rightarrow> string
     \<Rightarrow> (string \<Rightarrow> js_function option) option \<Rightarrow> code_exec_config option \<Rightarrow> jsval \<Rightarrow> jsval
     \<Rightarrow> js_error + agent" where
  "ConversableAgent new_OpenAIWrapper isTerminationMsg_arg maxConsecutiveAutoReply_arg
       humanInputMode_arg functionMap_arg codeExecutionConfig_arg llmConfig_arg
       defaultAutoReply_arg =
     (case (if llmConfig_arg \<noteq> JBool False
            then (case new_OpenAIWrapper llmConfig_arg of
                    Inl e \<Rightarrow> Inl e
                  | Inr c \<Rightarrow> Inr (Some c))
            else Inr None) of
        Inl e \<Rightarrow> Inl e
      | Inr cl \<Rightarrow>
          register_all
            \<lparr> oaiMessages = Map.empty,
              isTerminationMsg =
                (case isTerminationMsg_arg of
                   Some p \<Rightarrow> p
                 | None \<Rightarrow> default_isTerminationMsg),
              client = cl,
              codeExecutionConfig =
                (case codeExecutionConfig_arg of
                   Some c \<Rightarrow> c
                 | None \<Rightarrow> CodeExecObj None JUndefined),
              humanInputMode = humanInputMode_arg,
              global_maxConsecutiveAutoReply =
                (case maxConsecutiveAutoReply_arg of
                   Some n \<Rightarrow> n
                 | None \<Rightarrow> MAX_CONSECUTIVE_AUTO_REPLY),
              consecutiveAutoReplyCounter = Map.empty,
              maxConsecutiveAutoReplyDict = Map.empty,
              functionMap =
                (case functionMap_arg of
                   Some m \<Rightarrow> m
                 | None \<Rightarrow> (\<lambda>k. None)),
              defaultAutoReply = defaultAutoReply_arg,
              replyFuncList = [],
              replyAtReceive = Map.empty \<rparr>
            [(TArray [Agent_class, TNull], GenerateOAIReply),
             (TArray [Agent_class, TNull], GenerateCodeExecutionReply),
             (TArray [Agent_class, TNull], GenerateFunctionCallReply),
             (TArray [Agent_class, TNull], GenerateAsyncFunctionCallReply),
             (TArray [Agent_class, TNull], CheckTerminationAndHumanReply)])"

subsection \<open>The auto-reply ceiling and counter\<close>

text \<open>\<open>sender\<close> is \<open>None\<close> for the default \<open>sender = null\<close>; the result \<open>None\<close> is \<open>undefined\<close>.\<close>

definition maxConsecutiveAutoReply :: "agent \<Rightarrow> agent_ref option \<Rightarrow> jsnum option" where
  "maxConsecutiveAutoReply a sender =
     (case sender of
        None \<Rightarrow> Some (global_maxConsecutiveAutoReply a)
      | Some s \<Rightarrow> maxConsecutiveAutoReplyDict a s)"

definition updateMaxConsecutiveAutoReply :: "agent \<Rightarrow> jsnum \<Rightarrow> agent_ref option \<Rightarrow> agent" where
  "updateMaxConsecutiveAutoReply a v sender =
     (case sender of
        None \<Rightarrow>
          a\<lparr> global_maxConsecutiveAutoReply := v,
             maxConsecutiveAutoReplyDict :=
               (\<lambda>k. case maxConsecutiveAutoReplyDict a k of None \<Rightarrow> None | Some old \<Rightarrow> Some v) \<rparr>
      | Some s \<Rightarrow>
          a\<lparr> maxConsecutiveAutoReplyDict := (maxConsecutiveAutoReplyDict a)(s \<mapsto> v) \<rparr>)"

definition resetConsecutiveAutoReplyCounter :: "agent \<Rightarrow> agent_ref option \<Rightarrow> agent" where
  "resetConsecutiveAutoReplyCounter a sender =
     (case sender of
        None \<Rightarrow> a\<lparr> consecutiveAutoReplyCounter := Map.empty \<rparr>
      | Some s \<Rightarrow>
          a\<lparr> consecutiveAutoReplyCounter := (consecutiveAutoReplyCounter a)(s \<mapsto> Num 0) \<rparr>)"

subsection \<open>The message store\<close>

text \<open>
  The \<open>forEach\<close> of \<open>_appendOaiMessage\<close> over the keys to copy: a key is copied when
  \<open>message[key]\<close> is truthy.
\<close>

fun copy_truthy :: "jsval \<Rightarrow> string list \<Rightarrow> js_error + obj" where
  "copy_truthy message [] = Inr []"
| "copy_truthy message (k # ks) =
     (case get_prop message k of
        Inl e \<Rightarrow> Inl e
      | Inr v \<Rightarrow>
          (case copy_truthy message ks of
             Inl e \<Rightarrow> Inl e
           | Inr rest \<Rightarrow> Inr (if truthy v then (k, v) # rest else rest)))"

text \<open>
  \<open>_appendOaiMessage(message, role, conversationId)\<close>: the flag it returns, and the
  agent with the message pushed to the conversation.
\<close>

definition appendOaiMessage ::
  "agent \<Rightarrow> jsval \<Rightarrow> string \<Rightarrow> agent_ref \<Rightarrow> js_error + (bool \<times> agent)" where
  "appendOaiMessage a message_arg role conversationId =
     (let message =
            (case message_arg of
               JStr s \<Rightarrow> JObj [(''content'', JStr s)]
             | _ \<Rightarrow> message_arg)
      in case copy_truthy message [''content'', ''function_call'', ''name'', ''context''] of
           Inl e \<Rightarrow> Inl e
         | Inr oaiMessage \<Rightarrow>
             if \<not> truthy (obj_get oaiMessage ''content'')
                \<and> \<not> truthy (obj_get oaiMessage ''function_call'')
             then Inr (False, a)
             else
               (case get_prop message ''role'' of
                  Inl e \<Rightarrow> Inl e
                | Inr r \<Rightarrow>
                    let role1 = (if r = JStr ''function'' then ''function'' else role);
                        role2 = (if truthy (obj_get oaiMessage ''function_call'')
                                 then ''assistant'' else role1);
                        stored = oaiMessage @ [(''role'', JStr role2)];
                        history = (case oaiMessages a conversationId of
                                     None \<Rightarrow> []
                                   | Some h \<Rightarrow> h)
                    in Inr (True,
                            a\<lparr> oaiMessages :=
                                 (oaiMessages a)(conversationId \<mapsto> history @ [stored]) \<rparr>)))"

subsection \<open>send and receive\<close>

text \<open>The errors that \<open>send\<close> and \<open>_processReceivedMessage\<close> construct.\<close>

definition send_invalid :: js_error where
  "send_invalid =
     Error (''Message can'' @ [APOS] @ ''t be converted into a valid ChatCompletion message. Either content or function_call must be provided.'')"

definition receive_invalid :: js_error where
  "receive_invalid =
     Error (''Received message can'' @ [APOS] @ ''t be converted into a valid ChatCompletion message. Either content or function_call must be provided.'')"

text \<open>
  \<open>send(message, recipient, requestReply, silent)\<close>. \<open>recipient_receive\<close> stands for
  \<^verbatim>\<open>recipient.receive(message, this, requestReply, silent)\<close>, a method of the peer: it
  gives this agent as the peer's turn leaves it, or the error the turn throws.
\<close>

definition send ::
  "(agent \<Rightarrow> jsval \<Rightarrow> bool option \<Rightarrow> bool \<Rightarrow> js_error + agent)
     \<Rightarrow> agent \<Rightarrow> jsval \<Rightarrow> agent_ref \<Rightarrow> bool option \<Rightarrow> bool \<Rightarrow> js_error + agent" where
  "send recipient_receive a message recipient requestReply silent =
     (case appendOaiMessage a message ''assistant'' recipient of
        Inl e \<Rightarrow> Inl e
      | Inr (isValid, a') \<Rightarrow>
          if \<not> isValid
          then Inl send_invalid
          else recipient_receive a' message requestReply silent)"

fun messageToDict :: "jsval \<Rightarrow> jsval" where
  "messageToDict (JStr s) = JObj [(''content'', JStr s)]"
| "messageToDict (JObj ps) = JObj ps"
| "messageToDict (JArr xs) = JArr xs"
| "messageToDict v = JObj []"

text \<open>
  The members of an instance: the methods and accessors that the class
  \<open>ConversableAgent\<close> and its base class \<open>Agent\<close> declare, and the fields the two
  constructors assign. A method call \<open>this.m(...)\<close> with \<open>m\<close> not among them reads
  \<open>undefined\<close> and throws.
\<close>

definition ConversableAgent_members :: "string list" where
  "ConversableAgent_members =
     [''registerReply'', ''systemMessage'', ''updateSystemMessage'',
      ''updateMaxConsecutiveAutoReply'', ''maxConsecutiveAutoReply'', ''chatMessages'',
      ''lastMessage'', ''useDocker'', ''_appendOaiMessage'', ''send'', ''aSend'',
      ''_printReceivedMessage'', ''_processReceivedMessage'', ''receive'', ''aReceive'',
      ''_prepareChat'', ''initiateChat'', ''aInitiateChat'', ''reset'', ''stopReplyAtReceive'',
      ''resetConsecutiveAutoReplyCounter'', ''clearHistory'', ''generateOAIReply'',
      ''generateCodeExecutionReply'', ''generateFunctionCallReply'',
      ''generateAsyncFunctionCallReply'', ''checkTerminationAndHumanReply'',
      ''aCheckTerminationAndHumanReply'', ''generateReply'', ''aGenerateReply'',
      ''_matchTrigger'', ''getHumanInput'', ''aGetHumanInput'', ''runCode'',
      ''executeCodeBlocks'', ''executeFunction'', ''aExecuteFunction'',
      ''generateInitMessage'', ''registerFunction'', ''canExecuteFunction'', ''functionMap'',
      ''name'', ''constructor'', ''_name'', ''_oaiMessages'', ''_oaiSystemMessage'',
      ''_isTerminationMsg'', ''llmConfig'', ''client'', ''_codeExecutionConfig'',
      ''humanInputMode'', ''_maxConsecutiveAutoReply'', ''_consecutiveAutoReplyCounter'',
      ''_maxConsecutiveAutoReplyDict'', ''_functionMap'', ''_defaultAutoReply'',
      ''_replyFuncList'', ''replyAtReceive'']"

text \<open>
  \<open>_processReceivedMessage(message, sender, silent)\<close>. It calls
  \<^verbatim>\<open>this._appendOAIMessage(message, 'user', sender)\<close>; the store's method is
  \<open>_appendOaiMessage\<close>. Printing the message changes no field.
\<close>

definition processReceivedMessage ::
  "agent \<Rightarrow> jsval \<Rightarrow> agent_ref \<Rightarrow> bool \<Rightarrow> js_error + agent" where
  "processReceivedMessage a message_arg sender silent =
     (let message = messageToDict message_arg
      in if ''_appendOAIMessage'' \<notin> set ConversableAgent_members
         then Inl (TypeError ''this._appendOAIMessage is not a function'')
         else
           (case appendOaiMessage a message ''user'' sender of
              Inl e \<Rightarrow> Inl e
            | Inr (valid, a') \<Rightarrow>
                if \<not> valid
                then Inl receive_invalid
                else Inr a'))"

text \<open>
  \<open>receive(message, sender, requestReply, silent)\<close>. \<open>generateReply_m\<close> and \<open>send_m\<close>
  stand for \<open>this.generateReply\<close> and \<open>this.send\<close>; \<open>send\<close> is called with \<open>silent\<close> in the
  place of \<open>requestReply\<close>.
\<close>

definition receive ::
  "(agent \<Rightarrow> obj list option \<Rightarrow> agent_ref \<Rightarrow> js_error + (jsval \<times> agent))
     \<Rightarrow> (agent \<Rightarrow> jsval \<Rightarrow> agent_ref \<Rightarrow> bool option \<Rightarrow> js_error + agent)
     \<Rightarrow> agent \<Rightarrow> jsval \<Rightarrow> agent_ref \<Rightarrow> bool option \<Rightarrow> bool \<Rightarrow> js_error + agent" where
  "receive generateReply_m send_m a message sender requestReply silent =
     (case processReceivedMessage a message sender silent of
        Inl e \<Rightarrow> Inl e
      | Inr a1 \<Rightarrow>
          if requestReply = Some False
             \<or> (requestReply = None \<and> replyAtReceive a1 sender \<noteq> Some True)
          then Inr a1
          else
            (case generateReply_m a1 (oaiMessages a1 sender) sender of
               Inl e \<Rightarrow> Inl e
             | Inr (reply, a2) \<Rightarrow>
                 if reply \<noteq> JNull then send_m a2 reply sender (Some silent) else Inr a2))"

subsection \<open>Dispatch\<close>

text \<open>\<open>_matchTrigger(trigger, sender)\<close>; \<open>matchSome\<close> is \<open>trigger.some(...)\<close>.\<close>

fun matchTrigger :: "trigger \<Rightarrow> agent_ref option \<Rightarrow> js_error + bool"
  and matchSome :: "trigger list \<Rightarrow> agent_ref option \<Rightarrow> js_error + bool" where
  "matchTrigger TNull sender = Inr (sender = None)"
| "matchTrigger (TString n) sender =
     (case sender of
        None \<Rightarrow> Inl (TypeError (''Cannot read properties of null (reading '' @ [APOS] @ ''name'' @ [APOS] @ '')''))
      | Some s \<Rightarrow> Inr (n = ref_name s))"
| "matchTrigger (TFunction f) sender = f sender"
| "matchTrigger (TArray ts) sender = matchSome ts sender"
| "matchTrigger (TAgent t) sender = Inr (sender = Some t)"
| "matchTrigger TObject sender = Inl (Error ''Unsupported trigger type: object'')"
| "matchTrigger (TOther ty) sender = Inl (Error (''Unsupported trigger type: '' @ ty))"
| "matchSome [] sender = Inr False"
| "matchSome (t # ts) sender =
     (case matchTrigger t sender of
        Inl e \<Rightarrow> Inl e
      | Inr m \<Rightarrow> if m then Inr True else matchSome ts sender)"

text \<open>\<^verbatim>\<open>exclude && exclude.includes(replyFunc)\<close>\<close>

definition is_excluded :: "reply_func list option \<Rightarrow> reply_func \<Rightarrow> bool" where
  "is_excluded exclude f = (case exclude of None \<Rightarrow> False | Some ex \<Rightarrow> f \<in> set ex)"

text \<open>
  The loop of \<open>generateReply\<close> over \<open>this._replyFuncList\<close>. \<open>invoke f\<close> stands for the call
  \<^verbatim>\<open>replyFunc(this, messages, sender, replyFuncTuple.config)\<close> of the reply function \<open>f\<close>
  and the destructuring of its result: the pair \<open>[final, reply]\<close> and the agent as the
  call leaves it, or the error thrown. The entries are visited in the order of the list
  as it is when the loop starts.
\<close>

fun generateReply_loop ::
  "(reply_func \<Rightarrow> agent \<Rightarrow> obj list option \<Rightarrow> agent_ref option \<Rightarrow> jsval
      \<Rightarrow> js_error + ((bool \<times> jsval) \<times> agent))
     \<Rightarrow> reply_entry list \<Rightarrow> agent \<Rightarrow> obj list option \<Rightarrow> agent_ref option
     \<Rightarrow> reply_func list option \<Rightarrow> js_error + (jsval \<times> agent)" where
  "generateReply_loop invoke [] a messages sender exclude = Inr (defaultAutoReply a, a)"
| "generateReply_loop invoke (replyFuncTuple # rest) a messages sender exclude =
     (if is_excluded exclude (replyFunc replyFuncTuple)
      then generateReply_loop invoke rest a messages sender exclude
      else
        (case matchTrigger (trigger replyFuncTuple) sender of
           Inl e \<Rightarrow> Inl e
         | Inr m \<Rightarrow>
             if \<not> m then generateReply_loop invoke rest a messages sender exclude
             else
               (case invoke (replyFunc replyFuncTuple) a messages sender
                       (config replyFuncTuple) of
                  Inl e \<Rightarrow> Inl e
                | Inr ((final, reply), a') \<Rightarrow>
                    if final then Inr (reply, a')
                    else generateReply_loop invoke rest a' messages sender exclude)))"

definition generateReply ::
  "(reply_func \<Rightarrow> agent \<Rightarrow> obj list option \<Rightarrow> agent_ref option \<Rightarrow> jsval
      \<Rightarrow> js_error + ((bool \<times> jsval) \<times> agent))
     \<Rightarrow> agent \<Rightarrow> obj list option \<Rightarrow> agent_ref option \<Rightarrow> reply_func list option
     \<Rightarrow> js_error + (jsval \<times> agent)" where
  "generateReply invoke a messages_arg sender exclude =
     (if messages_arg = None \<and> sender = None
      then Inl (Error (''Either '' @ [APOS] @ ''messages'' @ [APOS] @ '' or '' @ [APOS]
                        @ ''sender'' @ [APOS] @ '' must be provided.''))
      else
        let messages =
              (case messages_arg of
                 Some ms \<Rightarrow> Some ms
               | None \<Rightarrow> (case sender of None \<Rightarrow> None | Some s \<Rightarrow> oaiMessages a s))
        in generateReply_loop invoke (replyFuncList a) a messages sender exclude)"

subsection \<open>The termination and human-input strategy\<close>

text \<open>
  \<open>getHumanInput(prompt)\<close> as the class has it: it prints the prompt and resolves to the
  empty string. A subclass overrides it, so the strategy below takes the method as
  \<open>human\<close>, from the prompt to the string that the awaited call gives.
\<close>

definition getHumanInput :: "string \<Rightarrow> string" where
  "getHumanInput prompt = []"

definition prompt_always :: "agent_ref \<Rightarrow> string" where
  "prompt_always sender =
     ''Provide feedback to '' @ ref_name sender
       @ ''. Press enter to skip and use auto-reply, or type '' @ [APOS] @ ''exit'' @ [APOS]
       @ '' to end the conversation: ''"

definition prompt_limit :: "bool \<Rightarrow> agent_ref \<Rightarrow> string" where
  "prompt_limit terminate sender =
     (if terminate
      then ''Please give feedback to '' @ ref_name sender
             @ ''. Press enter or type '' @ [APOS] @ ''exit'' @ [APOS]
             @ '' to stop the conversation: ''
      else ''Please give feedback to '' @ ref_name sender
             @ ''. Press enter to skip and use auto-reply, or type '' @ [APOS] @ ''exit''
             @ [APOS] @ '' to stop the conversation: '')"

text \<open>
  The first half of \<open>checkTerminationAndHumanReply\<close>: the value of \<open>reply\<close> when the
  \<open>if\<close> on \<open>humanInputMode\<close> is left.
\<close>

definition obtain_reply ::
  "(string \<Rightarrow> string) \<Rightarrow> agent \<Rightarrow> jsval \<Rightarrow> agent_ref \<Rightarrow> js_error + string" where
  "obtain_reply human a message sender =
     (if humanInputMode a = ''ALWAYS''
      then
        let reply = human (prompt_always sender)
        in if reply \<noteq> [] then Inr reply
           else (case isTerminationMsg a message of
                   Inl e \<Rightarrow> Inl e
                 | Inr t \<Rightarrow> Inr (if t then ''exit'' else []))
      else if js_ge (consecutiveAutoReplyCounter a sender) (maxConsecutiveAutoReplyDict a sender)
      then
        if humanInputMode a = ''NEVER'' then Inr ''exit''
        else
          (case isTerminationMsg a message of
             Inl e \<Rightarrow> Inl e
           | Inr terminate \<Rightarrow>
               let reply = human (prompt_limit terminate sender)
               in Inr (if reply \<noteq> [] then reply else if terminate then ''exit'' else []))
      else
        (case isTerminationMsg a message of
           Inl e \<Rightarrow> Inl e
         | Inr t \<Rightarrow> Inr (if t then ''exit'' else [])))"

text \<open>
  \<open>checkTerminationAndHumanReply(messages, sender, config)\<close>, by the value its promise
  resolves to or the error it rejects with. \<open>config\<close> is not read.
\<close>

definition checkTerminationAndHumanReply ::
  "(string \<Rightarrow> string) \<Rightarrow> agent \<Rightarrow> obj list option \<Rightarrow> agent_ref
     \<Rightarrow> js_error + ((bool \<times> jsval) \<times> agent)" where
  "checkTerminationAndHumanReply human a messages_arg sender =
     (case (case messages_arg of Some ms \<Rightarrow> Some ms | None \<Rightarrow> oaiMessages a sender) of
        None \<Rightarrow> Inl (TypeError (''Cannot read properties of undefined (reading '' @ [APOS]
                                  @ ''length'' @ [APOS] @ '')''))
      | Some messages \<Rightarrow>
          let message = (if messages = [] then JUndefined else JObj (last messages))
          in (case obtain_reply human a message sender of
               Inl e \<Rightarrow> Inl e
             | Inr reply \<Rightarrow>
                 if reply = ''exit''
                 then Inr ((True, JNull),
                           a\<lparr> consecutiveAutoReplyCounter :=
                                (consecutiveAutoReplyCounter a)(sender \<mapsto> Num 0) \<rparr>)
                 else if truthy (JStr reply) \<or> maxConsecutiveAutoReplyDict a sender = Some (Num 0)
                 then Inr ((True, JStr reply),
                           a\<lparr> consecutiveAutoReplyCounter :=
                                (consecutiveAutoReplyCounter a)(sender \<mapsto> Num 0) \<rparr>)
                 else Inr ((False, JNull),
                           a\<lparr> consecutiveAutoReplyCounter :=
                                (consecutiveAutoReplyCounter a)
                                  (sender \<mapsto> js_add1 (consecutiveAutoReplyCounter a sender)) \<rparr>)))"

subsection \<open>Code execution\<close>

text \<open>
  A code block is the pair \<open>[lang, code]\<close>. \<open>extractCode\<close>, \<open>UNKNOWN\<close> and \<open>inferLang\<close> are
  imported from \<open>autogen/codeUtils\<close>, which is not part of this repository: the
  definitions below take them as parameters.
\<close>

type_synonym code_block = "string \<times> string"

text \<open>\<open>runCode\<close> as the class has it: it prints the code and returns an empty object.\<close>

definition runCode :: "string \<Rightarrow> obj" where
  "runCode code = []"

text \<open>
  The spread \<open>...this._codeExecutionConfig\<close> in the two calls of \<open>runCode\<close>: the
  configuration is \<open>false\<close> or a plain object, and neither is iterable.
\<close>

fun spread_config :: "code_exec_config \<Rightarrow> js_error + jsval list" where
  "spread_config CodeExecFalse = Inl not_iterable"
| "spread_config (CodeExecObj n d) = Inl not_iterable"

text \<open>\<open>this._codeExecutionConfig.useDocker = image\<close>, in strict mode.\<close>

fun set_useDocker :: "agent \<Rightarrow> jsval \<Rightarrow> js_error + agent" where
  "set_useDocker a img =
     (case codeExecutionConfig a of
        CodeExecFalse \<Rightarrow>
          Inl (TypeError (''Cannot create property '' @ [APOS] @ ''useDocker'' @ [APOS]
                           @ '' on boolean '' @ [APOS] @ ''false'' @ [APOS]))
      | CodeExecObj n d \<Rightarrow> Inr (a\<lparr> codeExecutionConfig := CodeExecObj n img \<rparr>))"

text \<open>
  The \<open>forEach\<close> of \<open>executeCodeBlocks\<close>, with \<open>logsAll\<close> and \<open>exitcode\<close> as arguments. In
  the Python branch the file name is computed before the call and reaches nothing but
  the call, which the spread makes throw.
\<close>

fun executeCodeBlocks_loop ::
  "(string \<Rightarrow> string) \<Rightarrow> agent \<Rightarrow> code_block list \<Rightarrow> string \<Rightarrow> jsval
     \<Rightarrow> js_error + ((jsval \<times> string) \<times> agent)" where
  "executeCodeBlocks_loop inferLang a [] logsAll exitcode = Inr ((exitcode, logsAll), a)"
| "executeCodeBlocks_loop inferLang a ((lang, code) # rest) logsAll exitcode =
     (let inferredLang = (if lang \<noteq> [] then lang else inferLang code)
      in case (if inferredLang \<in> set [''bash'', ''shell'', ''sh'']
               then (case spread_config (codeExecutionConfig a) of
                       Inl e \<Rightarrow> Inl e
                     | Inr extra \<Rightarrow> Inr (runCode code))
               else if inferredLang \<in> set [''python'', ''Python'']
               then (case spread_config (codeExecutionConfig a) of
                       Inl e \<Rightarrow> Inl e
                     | Inr extra \<Rightarrow> Inr (runCode code))
               else Inr [(''exitcode'', JNum 1),
                         (''logs'', JStr (''unknown language '' @ inferredLang)),
                         (''image'', JNull)]) of
           Inl e \<Rightarrow> Inl e
         | Inr result \<Rightarrow>
             (case (if obj_get result ''image'' \<noteq> JNull
                    then set_useDocker a (obj_get result ''image'')
                    else Inr a) of
                Inl e \<Rightarrow> Inl e
              | Inr a' \<Rightarrow>
                  executeCodeBlocks_loop inferLang a' rest
                    (logsAll @ [NL] @ to_string (obj_get result ''logs''))
                    (if obj_get result ''exitcode'' \<noteq> JNum 0
                     then obj_get result ''exitcode'' else exitcode)))"

definition executeCodeBlocks ::
  "(string \<Rightarrow> string) \<Rightarrow> agent \<Rightarrow> code_block list \<Rightarrow> js_error + ((jsval \<times> string) \<times> agent)" where
  "executeCodeBlocks inferLang a codeBlocks =
     executeCodeBlocks_loop inferLang a codeBlocks [] (JNum 0)"

text \<open>The reply of the strategy after an execution.\<close>

definition execution_reply :: "jsval \<Rightarrow> string \<Rightarrow> jsval" where
  "execution_reply exitcode logs =
     JStr (''exitcode: '' @ to_string exitcode @ '' (''
           @ (if exitcode = JNum 0 then ''execution succeeded'' else ''execution failed'')
           @ '')'' @ [NL] @ ''Code output: '' @ logs)"

text \<open>
  The first loop of \<open>generateCodeExecutionReply\<close>, for \<open>lastNMessages === "auto"\<close>: it
  walks the messages from the last one backwards, so it takes them reversed.
\<close>

fun count_user_backwards :: "obj list \<Rightarrow> nat" where
  "count_user_backwards [] = 0"
| "count_user_backwards (message # earlier) =
     (if map_of message ''role'' = None \<or> obj_get message ''role'' \<noteq> JStr ''user'' then 0
      else Suc (count_user_backwards earlier))"

text \<open>The second loop, over the messages from the start index on.\<close>

fun scan_loop ::
  "(jsval \<Rightarrow> code_block list) \<Rightarrow> string \<Rightarrow> (string \<Rightarrow> string) \<Rightarrow> agent \<Rightarrow> obj list
     \<Rightarrow> js_error + ((bool \<times> jsval) \<times> agent)" where
  "scan_loop extractCode UNKNOWN inferLang a [] = Inr ((False, JNull), a)"
| "scan_loop extractCode UNKNOWN inferLang a (message # later) =
     (if \<not> truthy (obj_get message ''content'')
      then scan_loop extractCode UNKNOWN inferLang a later
      else
        let codeBlocks = extractCode (obj_get message ''content'')
        in if length codeBlocks = 1 \<and> fst (codeBlocks ! 0) = UNKNOWN
           then scan_loop extractCode UNKNOWN inferLang a later
           else
             (case executeCodeBlocks inferLang a codeBlocks of
                Inl e \<Rightarrow> Inl e
              | Inr ((exitcode, logs), a') \<Rightarrow> Inr ((True, execution_reply exitcode logs), a')))"

fun set_lastNMessages :: "code_exec_config \<Rightarrow> last_n \<Rightarrow> code_exec_config" where
  "set_lastNMessages (CodeExecObj n d) l = CodeExecObj (Some l) d"
| "set_lastNMessages CodeExecFalse l = CodeExecFalse"

text \<open>
  \<open>messagesToScan\<close> and the start index of the second loop,
  \<^verbatim>\<open>Math.max(messages.length - messagesToScan, 0)\<close>.
\<close>

definition messagesToScan :: "last_n \<Rightarrow> obj list \<Rightarrow> int" where
  "messagesToScan lastN messages =
     (case lastN of
        Auto \<Rightarrow> int (count_user_backwards (rev messages))
      | Count n \<Rightarrow> n)"

definition scan_start :: "last_n \<Rightarrow> obj list \<Rightarrow> nat" where
  "scan_start lastN messages = nat (max (int (length messages) - messagesToScan lastN messages) 0)"

text \<open>
  \<open>generateCodeExecutionReply(messages, sender, config)\<close>: the pair \<open>[final, reply]\<close>, the
  configuration object it used with \<open>lastNMessages\<close> written back, and the agent. With
  \<open>config\<close> left \<open>null\<close> that object is the agent's own.
\<close>

definition generateCodeExecutionReply ::
  "(jsval \<Rightarrow> code_block list) \<Rightarrow> string \<Rightarrow> (string \<Rightarrow> string) \<Rightarrow> agent \<Rightarrow> obj list option
     \<Rightarrow> agent_ref \<Rightarrow> code_exec_config option
     \<Rightarrow> js_error + ((bool \<times> jsval) \<times> code_exec_config \<times> agent)" where
  "generateCodeExecutionReply extractCode UNKNOWN inferLang a messages_arg sender config_arg =
     (case (case config_arg of Some c \<Rightarrow> c | None \<Rightarrow> codeExecutionConfig a) of
        CodeExecFalse \<Rightarrow> Inr ((False, JNull), CodeExecFalse, a)
      | CodeExecObj n d \<Rightarrow>
          (case (case messages_arg of Some ms \<Rightarrow> Some ms | None \<Rightarrow> oaiMessages a sender) of
             None \<Rightarrow> Inl (TypeError (''Cannot read properties of undefined (reading '' @ [APOS]
                                       @ ''length'' @ [APOS] @ '')''))
           | Some messages \<Rightarrow>
               let lastN = (case n of Some l \<Rightarrow> l | None \<Rightarrow> Count 1)
               in (case scan_loop extractCode UNKNOWN inferLang a
                          (drop (scan_start lastN messages) messages) of
                     Inl e \<Rightarrow> Inl e
                   | Inr (r, a') \<Rightarrow>
                       (case config_arg of
                          Some c \<Rightarrow> Inr (r, set_lastNMessages c lastN, a')
                        | None \<Rightarrow>
                            Inr (r, set_lastNMessages (codeExecutionConfig a') lastN,
                                 a'\<lparr> codeExecutionConfig :=
                                      set_lastNMessages (codeExecutionConfig a') lastN \<rparr>)))))"

subsection \<open>Function execution\<close>

text \<open>
  The property read \<open>this._functionMap[name]\<close>. The function map is a plain object
  (\<open>functionMap ?? {}\<close>, and \<open>registerFunction\<close> builds an object literal), so a name that
  is not an own property is looked up in \<open>Object.prototype\<close>. \<open>Object_prototype\<close> stands
  for that object, part of the language like \<open>JSON.parse\<close>: the member under a name, as it
  behaves when called without a receiver.
\<close>

definition functionMap_read ::
  "(string \<Rightarrow> js_function option) \<Rightarrow> agent \<Rightarrow> string \<Rightarrow> js_function option" where
  "functionMap_read Object_prototype a k =
     (case functionMap a k of
        Some f \<Rightarrow> Some f
      | None \<Rightarrow> Object_prototype k)"

text \<open>\<^verbatim>\<open>canExecuteFunction(name)\<close>: \<^verbatim>\<open>Object.hasOwnProperty.call(this._functionMap, name)\<close>.\<close>

definition canExecuteFunction :: "agent \<Rightarrow> string \<Rightarrow> bool" where
  "canExecuteFunction a k = (functionMap a k \<noteq> None)"

definition function_result :: "jsval \<Rightarrow> string \<Rightarrow> obj" where
  "function_result funcName content =
     [(''name'', funcName), (''role'', JStr ''function''), (''content'', JStr content)]"

text \<open>
  \<open>executeFunction(funcCall)\<close>. \<open>JSON_parse\<close> is the built-in \<open>JSON.parse\<close>: the value
  decoded, or the \<open>SyntaxError\<close> thrown. Each \<open>try\<close> block is a \<open>case\<close> on what its body
  gives; \<open>content\<close> is still \<open>undefined\<close> when the arguments decode to \<open>null\<close>. The reads of
  \<open>funcCall.name\<close> and \<open>funcCall.args\<close>, the conversion of the name to a property key, the
  call of \<open>formatJsonStr\<close> and the final \<open>String(content)\<close> stand outside the \<open>try\<close> blocks:
  what they throw leaves the function. \<open>formatJsonStr\<close> calls \<open>jstr.split\<close>, which only a
  string has. \<open>function_call_outcome\<close> is the body up to the \<open>return\<close>: the pair of
  \<open>isExecSuccess\<close> and \<open>content\<close>.
\<close>

definition function_call_outcome ::
  "(string \<Rightarrow> js_error + jsval) \<Rightarrow> js_function option \<Rightarrow> string \<Rightarrow> jsval
     \<Rightarrow> js_error + (bool \<times> jsval)" where
  "function_call_outcome JSON_parse func_read key funcCall =
     (case func_read of
        None \<Rightarrow> Inr (False, JStr (''Error: Function '' @ key @ '' not found.''))
      | Some func \<Rightarrow>
          (case get_prop funcCall ''args'' of
             Inl e \<Rightarrow> Inl e
           | Inr ar \<Rightarrow>
               (case (if truthy ar then ar else JStr ''{}'') of
                  JStr jstr \<Rightarrow>
                    (case JSON_parse (formatJsonStr jstr) of
                       Inl e \<Rightarrow>
                         Inr (False, JStr (''Error: '' @ error_string e @ [NL]
                                           @ '' Your argument should follow JSON format.''))
                     | Inr args \<Rightarrow>
                         if args = JNull then Inr (False, JUndefined)
                         else
                           (case spread args of
                              Inl e \<Rightarrow> Inr (False, JStr (''Error: '' @ error_string e))
                            | Inr argv \<Rightarrow>
                                (case func argv of
                                   Inl e \<Rightarrow> Inr (False, JStr (''Error: '' @ error_string e))
                                 | Inr v \<Rightarrow> Inr (True, v))))
                | other \<Rightarrow> Inl (TypeError ''jstr.split is not a function''))))"

definition executeFunction ::
  "(string \<Rightarrow> js_error + jsval) \<Rightarrow> (string \<Rightarrow> js_function option) \<Rightarrow> agent \<Rightarrow> jsval
     \<Rightarrow> js_error + (bool \<times> obj)" where
  "executeFunction JSON_parse Object_prototype a funcCall =
     (case get_prop funcCall ''name'' of
        Inl e \<Rightarrow> Inl e
      | Inr nm \<Rightarrow>
          (let funcName = (if truthy nm then nm else JStr [])
           in (case String_of funcName of
                 Inl e \<Rightarrow> Inl e
               | Inr key \<Rightarrow>
                   (case function_call_outcome JSON_parse
                           (functionMap_read Object_prototype a key) key funcCall of
                      Inl e \<Rightarrow> Inl e
                    | Inr (isExecSuccess, content) \<Rightarrow>
                        (case String_of content of
                           Inl e \<Rightarrow> Inl e
                         | Inr s \<Rightarrow> Inr (isExecSuccess, function_result funcName s))))))"

section \<open>Sample values\<close>

text \<open>
  The agent that \<open>new ConversableAgent(name, systemMessage, null, null, "TERMINATE", null,
  null, false)\<close> gives: every default, and no completion client.
\<close>

definition builtin_entry :: "reply_func \<Rightarrow> reply_entry" where
  "builtin_entry f =
     \<lparr> trigger = TArray [Agent_class, TNull], replyFunc = f, config = JObj [],
       initConfig = JNull, resetConfig = None \<rparr>"

definition agent0 :: agent where
  "agent0 =
     \<lparr> oaiMessages = Map.empty,
       isTerminationMsg = default_isTerminationMsg,
       client = None,
       codeExecutionConfig = CodeExecObj None JUndefined,
       humanInputMode = ''TERMINATE'',
       global_maxConsecutiveAutoReply = Num 100,
       consecutiveAutoReplyCounter = Map.empty,
       maxConsecutiveAutoReplyDict = Map.empty,
       functionMap = (\<lambda>k. None),
       defaultAutoReply = JStr [],
       replyFuncList =
         [builtin_entry CheckTerminationAndHumanReply,
          builtin_entry GenerateAsyncFunctionCallReply,
          builtin_entry GenerateFunctionCallReply,
          builtin_entry GenerateCodeExecutionReply,
          builtin_entry GenerateOAIReply],
       replyAtReceive = Map.empty \<rparr>"

text \<open>A peer, and a predicate that finds no message terminating.\<close>

definition peer :: agent_ref where
  "peer = AgentRef 1 ''assistant''"

definition never_terminates :: "jsval \<Rightarrow> js_error + bool" where
  "never_terminates x = Inr False"

text \<open>
  A function of the caller's, bound to the name \<open>f\<close> in the examples, and the agent
  that binds it.
\<close>

definition function_f :: js_function where
  "function_f argv = Inr (JStr ''done'')"

definition agent_f :: agent where
  "agent_f = agent0\<lparr> functionMap := (\<lambda>k. if k = ''f'' then Some function_f else None) \<rparr>"

text \<open>
  The argument strings \<^verbatim>\<open>{"a":2,"b":3}\<close> and \<^verbatim>\<open>[]\<close>, and a table of what \<open>JSON.parse\<close>
  gives for them; the table is used at these two strings only.
\<close>

definition args_object :: string where
  "args_object =
     [CHR ''{'', DQUOTE, CHR ''a'', DQUOTE, CHR '':'', CHR ''2'', CHR '','',
      DQUOTE, CHR ''b'', DQUOTE, CHR '':'', CHR ''3'', CHR ''}'']"

definition JSON_parse_table :: "string \<Rightarrow> js_error + jsval" where
  "JSON_parse_table s =
     (if s = args_object then Inr (JObj [(''a'', JNum 2), (''b'', JNum 3)])
      else if s = ''[]'' then Inr (JArr [])
      else Inl (SyntaxError []))"

text \<open>
  \<open>Object.prototype.toString\<close> called without a receiver gives \<open>"[object Undefined]"\<close>;
  the table has this member only and is used at this name only.
\<close>

definition Object_prototype_table :: "string \<Rightarrow> js_function option" where
  "Object_prototype_table k =
     (if k = ''toString'' then Some (\<lambda>argv. Inr (JStr ''[object Undefined]'')) else None)"

text \<open>
  A conversation that ends in three messages of the user, the oldest of them with a
  code block, and an \<open>extractCode\<close> that finds that block in it and nothing elsewhere.
\<close>

definition msg_assistant :: obj where
  "msg_assistant = [(''content'', JStr ''Please help''), (''role'', JStr ''assistant'')]"

definition msg_code :: obj where
  "msg_code = [(''content'', JStr ''run this''), (''role'', JStr ''user'')]"

definition msg_ok :: obj where
  "msg_ok = [(''content'', JStr ''ok''), (''role'', JStr ''user'')]"

definition msg_thanks :: obj where
  "msg_thanks = [(''content'', JStr ''thanks''), (''role'', JStr ''user'')]"

definition extractCode_sample :: "jsval \<Rightarrow> code_block list" where
  "extractCode_sample c =
     (if c = JStr ''run this'' then [(''python'', ''print(1)'')] else [(''unknown'', to_string c)])"

definition agent_auto :: agent where
  "agent_auto = agent0\<lparr> codeExecutionConfig := CodeExecObj (Some Auto) JUndefined \<rparr>"

section \<open>The statements of the specification, in terms of the model\<close>

text \<open>A raw message normalised: a bare string is the content of an object.\<close>

fun normalized :: "jsval \<Rightarrow> obj" where
  "normalized (JStr s) = [(''content'', JStr s)]"
| "normalized (JObj ps) = ps"
| "normalized v = []"

definition has_content :: "obj \<Rightarrow> bool" where
  "has_content m = truthy (obj_get m ''content'')"

definition has_function_call :: "obj \<Rightarrow> bool" where
  "has_function_call m = truthy (obj_get m ''function_call'')"

definition history :: "agent \<Rightarrow> agent_ref \<Rightarrow> obj list" where
  "history a s = (case oaiMessages a s of None \<Rightarrow> [] | Some h \<Rightarrow> h)"

text \<open>
  What \<open>_appendOaiMessage\<close> keeps of a normalised message, and the role it stores
  with it.
\<close>

definition kept_fields :: "obj \<Rightarrow> obj" where
  "kept_fields n =
     filter (\<lambda>(k, v). truthy v)
       (map (\<lambda>k. (k, obj_get n k)) [''content'', ''function_call'', ''name'', ''context''])"

definition stored_role :: "obj \<Rightarrow> string \<Rightarrow> string" where
  "stored_role n role =
     (if has_function_call n then ''assistant''
      else if obj_get n ''role'' = JStr ''function'' then ''function''
      else role)"

text \<open>A message whose role is \<open>user\<close>.\<close>

definition is_user :: "obj \<Rightarrow> bool" where
  "is_user m = (map_of m ''role'' = Some (JStr ''user''))"

definition trailing_user_count :: "obj list \<Rightarrow> nat" where
  "trailing_user_count messages = length (takeWhile is_user (rev messages))"

text \<open>
  A message in which the strategy finds no code: no content, or the single block that
  \<open>extractCode\<close> gives for a text without a fenced block.
\<close>

definition without_code :: "(jsval \<Rightarrow> code_block list) \<Rightarrow> string \<Rightarrow> obj \<Rightarrow> bool" where
  "without_code extractCode UNKNOWN m =
     (if truthy (obj_get m ''content'')
      then length (extractCode (obj_get m ''content'')) = 1
           \<and> fst (extractCode (obj_get m ''content'') ! 0) = UNKNOWN
      else True)"

text \<open>
  The language under which a block is executed, and the languages that
  \<open>executeCodeBlocks\<close> hands to \<open>runCode\<close>.
\<close>

definition inferredLang :: "(string \<Rightarrow> string) \<Rightarrow> code_block \<Rightarrow> string" where
  "inferredLang inferLang b = (if fst b \<noteq> [] then fst b else inferLang (snd b))"

definition runner_language :: "string \<Rightarrow> bool" where
  "runner_language l = (l \<in> set [''bash'', ''shell'', ''sh'', ''python'', ''Python''])"

section \<open>Properties of formatJsonStr\<close>

text \<open>
  The loop keeps the flag \<open>insideQuotes\<close> and the last character read. As long as a
  double quote that directly follows a backslash is an escaped quote inside a string,
  the flag says whether the reading is inside a string.
\<close>

lemma rendered_quote: "rendered x DQUOTE = rendered y DQUOTE"
  by (simp add: rendered_def)

lemma formatJsonStr_loop_Cons:
  "formatJsonStr_loop iq lc (c # cs) =
     rendered (if lc \<noteq> BSLASH \<and> c = DQUOTE then \<not> iq else iq) c
       @ formatJsonStr_loop (if lc \<noteq> BSLASH \<and> c = DQUOTE then \<not> iq else iq) c cs"
  by (simp add: Let_def rendered_def)

lemma loop_flag_step:
  assumes "iq = (q \<noteq> Outside)" and "q = Escaped \<longrightarrow> lc = BSLASH"
    and "if c = DQUOTE \<and> lc = BSLASH then q = Escaped else True"
  shows "(if lc \<noteq> BSLASH \<and> c = DQUOTE then \<not> iq else iq) = (quoting_step q c \<noteq> Outside)"
    and "quoting_step q c = Escaped \<longrightarrow> c = BSLASH"
    and "rendered (if lc \<noteq> BSLASH \<and> c = DQUOTE then \<not> iq else iq) c = rendered (q \<noteq> Outside) c"
  using assms by (cases q; auto simp: rendered_def split: if_splits)+

lemma formatJsonStr_loop_follows_quoting:
  "iq = (q \<noteq> Outside) \<Longrightarrow> (q = Escaped \<longrightarrow> lc = BSLASH) \<Longrightarrow> escaped_quotes_from q lc s \<Longrightarrow>
   formatJsonStr_loop iq lc s = render_from rendered q s"
proof (induction s arbitrary: iq lc q)
  case Nil
  then show ?case by simp
next
  case (Cons c cs)
  from Cons.prems(3) have here: "if c = DQUOTE \<and> lc = BSLASH then q = Escaped else True"
    and rest: "escaped_quotes_from (quoting_step q c) c cs"
    by simp_all
  note st = loop_flag_step [OF Cons.prems(1) Cons.prems(2) here]
  have "formatJsonStr_loop (quoting_step q c \<noteq> Outside) c cs
          = render_from rendered (quoting_step q c) cs"
    using st(2) rest by (intro Cons.IH) simp_all
  moreover have "rendered (quoting_step q c \<noteq> Outside) c = rendered (q \<noteq> Outside) c"
    using st(1) st(3) by simp
  ultimately show ?case
    unfolding formatJsonStr_loop_Cons st(1) by simp
qed

lemma formatJsonStr_loop_id:
  "NL \<notin> set s \<Longrightarrow> TAB \<notin> set s \<Longrightarrow> formatJsonStr_loop iq lc s = s"
  by (induction s arbitrary: iq lc) (auto simp: Let_def)

text \<open>
  C9, as the specification states it, at the argument string
  \<^verbatim>\<open>{<TAB>"a":1}\<close>: no quote of it follows a backslash, the tab stands outside every
  quoted string, the specification drops it, \<open>formatJsonStr\<close> keeps it.
\<close>

theorem formatJsonStr_tab_outside_counterexample:
  "backslash_quote_only_escapes
       [CHR ''{'', TAB, DQUOTE, CHR ''a'', DQUOTE, CHR '':'', CHR ''1'', CHR ''}'']
   \<and> formatJsonStr [CHR ''{'', TAB, DQUOTE, CHR ''a'', DQUOTE, CHR '':'', CHR ''1'', CHR ''}'']
     = [CHR ''{'', TAB, DQUOTE, CHR ''a'', DQUOTE, CHR '':'', CHR ''1'', CHR ''}'']
   \<and> render_all rendered_as_specified
       [CHR ''{'', TAB, DQUOTE, CHR ''a'', DQUOTE, CHR '':'', CHR ''1'', CHR ''}'']
     = [CHR ''{'', DQUOTE, CHR ''a'', DQUOTE, CHR '':'', CHR ''1'', CHR ''}'']"
  by (simp add: backslash_quote_only_escapes_def formatJsonStr_def render_all_def
        rendered_as_specified_def)

text \<open>
  C9, amended: on an argument string in which a double quote that directly follows a
  backslash occurs only as an escaped quote inside a quoted string, \<open>formatJsonStr\<close>
  escapes every literal newline and tab inside a quoted string to the two characters
  \<open>\n\<close> and \<open>\t\<close>, drops every literal newline outside a quoted string, and keeps
  everything else, a tab outside a quoted string included; an argument string with no
  literal newline and no literal tab is returned unchanged.
\<close>

theorem formatJsonStr_escapes:
  "(backslash_quote_only_escapes s \<longrightarrow> formatJsonStr s = render_all rendered s)
   \<and> (NL \<notin> set s \<and> TAB \<notin> set s \<longrightarrow> formatJsonStr s = s)"
  using formatJsonStr_loop_follows_quoting [of False Outside "CHR '' ''" s]
    formatJsonStr_loop_id [of s False "CHR '' ''"]
  by (simp add: formatJsonStr_def render_all_def backslash_quote_only_escapes_def)

theorem formatJsonStr_escapes_witness:
  "backslash_quote_only_escapes [CHR ''{'', DQUOTE, CHR ''a'', NL, BSLASH, DQUOTE, TAB, DQUOTE, NL, TAB, CHR ''}'']
   \<and> formatJsonStr [CHR ''{'', DQUOTE, CHR ''a'', NL, BSLASH, DQUOTE, TAB, DQUOTE, NL, TAB, CHR ''}'']
     = [CHR ''{'', DQUOTE, CHR ''a'', BSLASH, CHR ''n'', BSLASH, DQUOTE, BSLASH, CHR ''t'', DQUOTE,
        TAB, CHR ''}'']
   \<and> NL \<notin> set [CHR ''{'', DQUOTE, CHR ''a'', DQUOTE, CHR '':'', CHR ''1'', CHR ''}'']
   \<and> TAB \<notin> set [CHR ''{'', DQUOTE, CHR ''a'', DQUOTE, CHR '':'', CHR ''1'', CHR ''}'']
   \<and> formatJsonStr [CHR ''{'', DQUOTE, CHR ''a'', DQUOTE, CHR '':'', CHR ''1'', CHR ''}'']
     = [CHR ''{'', DQUOTE, CHR ''a'', DQUOTE, CHR '':'', CHR ''1'', CHR ''}'']"
proof -
  let ?v = "[CHR ''{'', DQUOTE, CHR ''a'', NL, BSLASH, DQUOTE, TAB, DQUOTE, NL, TAB, CHR ''}'']"
  let ?w = "[CHR ''{'', DQUOTE, CHR ''a'', DQUOTE, CHR '':'', CHR ''1'', CHR ''}'']"
  have h: "backslash_quote_only_escapes ?v"
    by (simp add: backslash_quote_only_escapes_def)
  have a: "NL \<notin> set ?w" and b: "TAB \<notin> set ?w"
    by simp_all
  have r: "render_all rendered ?v
     = [CHR ''{'', DQUOTE, CHR ''a'', BSLASH, CHR ''n'', BSLASH, DQUOTE, BSLASH, CHR ''t'', DQUOTE,
        TAB, CHR ''}'']"
    by (simp add: render_all_def rendered_def)
  note t1 = formatJsonStr_escapes [of ?v, THEN conjunct1, THEN mp, OF h]
  note t2 = formatJsonStr_escapes [of ?w, THEN conjunct2, THEN mp, OF conjI [OF a b]]
  from t1 r have v: "formatJsonStr ?v
     = [CHR ''{'', DQUOTE, CHR ''a'', BSLASH, CHR ''n'', BSLASH, DQUOTE, BSLASH, CHR ''t'', DQUOTE,
        TAB, CHR ''}'']"
    by simp
  from h v a b t2 show ?thesis
    by (intro conjI)
qed

text \<open>
  The strings left out: the loop takes a quote after any backslash for an escaped one,
  also after the backslash of \<open>\\\<close>. In the five characters quote, backslash, backslash,
  quote, newline the newline stands after the closing quote, and the loop escapes it.
\<close>

lemma formatJsonStr_after_escaped_backslash:
  "\<not> backslash_quote_only_escapes [DQUOTE, BSLASH, BSLASH, DQUOTE, NL]
   \<and> formatJsonStr [DQUOTE, BSLASH, BSLASH, DQUOTE, NL]
     = [DQUOTE, BSLASH, BSLASH, DQUOTE, BSLASH, CHR ''n'']
   \<and> render_all rendered [DQUOTE, BSLASH, BSLASH, DQUOTE, NL]
     = [DQUOTE, BSLASH, BSLASH, DQUOTE]"
  by (simp add: backslash_quote_only_escapes_def formatJsonStr_def render_all_def
        rendered_def)

section \<open>Receiving a message\<close>

lemma processReceivedMessage_throws:
  "processReceivedMessage a message sender silent
     = Inl (TypeError ''this._appendOAIMessage is not a function'')"
  by (simp add: processReceivedMessage_def ConversableAgent_members_def Let_def)

text \<open>
  C1: \<open>receive\<close> should append the message for the sender with role \<open>user\<close>, dispatch
  over the sender's history and send a non-null result back. In the code every call of
  \<open>receive\<close>, whatever the message, the sender and the flags, throws the \<open>TypeError\<close> of the
  call of the undefined method \<open>_appendOAIMessage\<close>: nothing is appended, and neither
  dispatch nor \<open>send\<close> is reached.
\<close>

theorem receive_throws:
  "receive generateReply_m send_m a message sender requestReply silent
     = Inl (TypeError ''this._appendOAIMessage is not a function'')"
  by (simp add: receive_def processReceivedMessage_throws)

section \<open>The constructor and the reply registry\<close>

lemma registerReply_default:
  "trigger_type_ok trig \<Longrightarrow>
   registerReply a trig f 0 cfg rs =
     Inr (a\<lparr> replyFuncList :=
              \<lparr> trigger = trig, replyFunc = f, config = object_spread cfg,
                initConfig = cfg, resetConfig = rs \<rparr> # replyFuncList a \<rparr>)"
  by (simp add: registerReply_def splice_insert_def Let_def)

lemma constructor_fields:
  assumes "ConversableAgent new_OpenAIWrapper p n mode fm cec llm dar = Inr A"
  shows "replyFuncList A =
           [builtin_entry CheckTerminationAndHumanReply,
            builtin_entry GenerateAsyncFunctionCallReply,
            builtin_entry GenerateFunctionCallReply,
            builtin_entry GenerateCodeExecutionReply,
            builtin_entry GenerateOAIReply]"
    and "isTerminationMsg A = (case p of Some q \<Rightarrow> q | None \<Rightarrow> default_isTerminationMsg)"
  using assms
  by (auto simp: ConversableAgent_def registerReply_default builtin_entry_def
           split: sum.splits if_splits)

lemma constructor_agent0:
  "ConversableAgent new_OpenAIWrapper None None ''TERMINATE'' None None (JBool False) (JStr [])
     = Inr agent0"
  by (simp add: ConversableAgent_def registerReply_default agent0_def
      builtin_entry_def MAX_CONSECUTIVE_AUTO_REPLY_def)

lemma constructor_registration_order:
  "ConversableAgent new_OpenAIWrapper p n mode fm cec llm dar = Inr A \<Longrightarrow>
   map replyFunc (replyFuncList A) =
     [CheckTerminationAndHumanReply, GenerateAsyncFunctionCallReply,
      GenerateFunctionCallReply, GenerateCodeExecutionReply, GenerateOAIReply]"
  by (simp add: constructor_fields(1) builtin_entry_def)

text \<open>
  A reply entry registered at the default position is put at index 0 of the list, with the
  configuration object copied, before every entry registered earlier, and dispatch visits
  the list from index 0: when the new entry is not excluded, its trigger matches and its
  reply function answers definitively, that answer is the result of dispatch; when it is
  excluded or its trigger does not match, dispatch goes on with the earlier entries in
  their order.
\<close>

lemma registered_entry_is_visited_first:
  assumes ok: "trigger_type_ok trig"
  shows "registerReply a trig f 0 cfg rs =
           Inr (a\<lparr> replyFuncList :=
                    \<lparr> trigger = trig, replyFunc = f, config = object_spread cfg,
                      initConfig = cfg, resetConfig = rs \<rparr> # replyFuncList a \<rparr>)"
    and "\<not> is_excluded exclude f \<Longrightarrow> matchTrigger trig sender = Inr True \<Longrightarrow>
         invoke f b (Some ms) sender (object_spread cfg) = Inr ((True, reply), b') \<Longrightarrow>
         generateReply_loop invoke
           (\<lparr> trigger = trig, replyFunc = f, config = object_spread cfg,
              initConfig = cfg, resetConfig = rs \<rparr> # rest) b (Some ms) sender exclude
           = Inr (reply, b')"
    and "is_excluded exclude f \<or> matchTrigger trig sender = Inr False \<Longrightarrow>
         generateReply_loop invoke
           (\<lparr> trigger = trig, replyFunc = f, config = object_spread cfg,
              initConfig = cfg, resetConfig = rs \<rparr> # rest) b (Some ms) sender exclude
           = generateReply_loop invoke rest b (Some ms) sender exclude"
  using ok by (auto simp: registerReply_default)

text \<open>
  The trigger of the built-in entries is the array \<open>[Agent, null]\<close>. \<open>_matchTrigger\<close>
  takes its first element, the class \<open>Agent\<close>, for a predicate and calls it on the sender.
\<close>

lemma builtin_trigger_throws:
  "matchTrigger (TArray [Agent_class, TNull]) sender = Inl class_called_without_new"
  by (simp add: Agent_class_def)

text \<open>
  C3: after the constructor the built-in strategies should be evaluated in the order of
  the list, termination and human input first and the completion reply last. In the
  code the list has that order, but dispatch over it evaluates none of them: whatever
  the messages and the sender, \<open>generateReply\<close> throws the \<open>TypeError\<close> of the call of the
  class \<open>Agent\<close> at the trigger of the first entry.
\<close>

theorem dispatch_over_builtins_throws:
  "ConversableAgent new_OpenAIWrapper p n mode fm cec llm dar = Inr A \<Longrightarrow>
   messages \<noteq> None \<or> sender \<noteq> None \<Longrightarrow>
   map replyFunc (replyFuncList A) =
     [CheckTerminationAndHumanReply, GenerateAsyncFunctionCallReply,
      GenerateFunctionCallReply, GenerateCodeExecutionReply, GenerateOAIReply]
   \<and> generateReply invoke A messages sender None = Inl class_called_without_new"
proof -
  assume c: "ConversableAgent new_OpenAIWrapper p n mode fm cec llm dar = Inr A"
    and m: "messages \<noteq> None \<or> sender \<noteq> None"
  have l: "replyFuncList A =
           [builtin_entry CheckTerminationAndHumanReply,
            builtin_entry GenerateAsyncFunctionCallReply,
            builtin_entry GenerateFunctionCallReply,
            builtin_entry GenerateCodeExecutionReply,
            builtin_entry GenerateOAIReply]"
    using c by (rule constructor_fields(1))
  have t: "trigger (builtin_entry CheckTerminationAndHumanReply) = TArray [Agent_class, TNull]"
    by (simp add: builtin_entry_def)
  have g: "generateReply invoke A messages sender None = Inl class_called_without_new"
    using m
    by (auto simp: generateReply_def l is_excluded_def t builtin_trigger_throws Let_def
             simp del: matchTrigger.simps)
  from c g show ?thesis
    by (simp add: constructor_registration_order)
qed

theorem dispatch_over_builtins_throws_witness:
  "ConversableAgent (\<lambda>c. Inr 0) None None ''TERMINATE'' None None (JBool False) (JStr [])
     = Inr agent0
   \<and> map replyFunc (replyFuncList agent0) =
     [CheckTerminationAndHumanReply, GenerateAsyncFunctionCallReply,
      GenerateFunctionCallReply, GenerateCodeExecutionReply, GenerateOAIReply]
   \<and> generateReply (\<lambda>f b ms s k. Inr ((True, JStr ''hi''), b)) agent0
        (Some [[(''content'', JStr ''hello''), (''role'', JStr ''user'')]]) (Some peer) None
      = Inl class_called_without_new"
proof -
  have c: "ConversableAgent (\<lambda>c. Inr 0) None None ''TERMINATE'' None None (JBool False) (JStr [])
             = Inr agent0"
    by (rule constructor_agent0)
  have m: "Some [[(''content'', JStr ''hello''), (''role'', JStr ''user'')]] \<noteq> None
             \<or> Some peer \<noteq> None"
    by simp
  from c dispatch_over_builtins_throws [OF c m] show ?thesis
    by (intro conjI) blast+
qed

section \<open>The default termination predicate\<close>

lemma default_isTerminationMsg_obj:
  "default_isTerminationMsg (JObj m) = Inl (TypeError ''x.get is not a function'')"
  by (simp add: default_isTerminationMsg_def js_call_def)

text \<open>
  C4: with no custom predicate, a message should be judged a termination message
  exactly when its content is \<open>"TERMINATE"\<close>, without fault on any stored message. In the
  code the predicate of an agent constructed without one throws on every message object:
  a stored message is a plain object and has no method \<open>get\<close>.
\<close>

theorem default_predicate_throws:
  "ConversableAgent new_OpenAIWrapper None n mode fm cec llm dar = Inr a \<Longrightarrow>
   isTerminationMsg a (JObj m) = Inl (TypeError ''x.get is not a function'')"
  by (simp add: constructor_fields(2) default_isTerminationMsg_obj)

theorem default_predicate_throws_witness:
  "ConversableAgent (\<lambda>c. Inr 0) None None ''TERMINATE'' None None (JBool False) (JStr [])
     = Inr agent0
   \<and> appendOaiMessage agent0 (JStr ''TERMINATE'') ''user'' peer
     = Inr (True, agent0\<lparr> oaiMessages :=
                [peer \<mapsto> [[(''content'', JStr ''TERMINATE''), (''role'', JStr ''user'')]]] \<rparr>)
   \<and> isTerminationMsg agent0 (JObj [(''content'', JStr ''TERMINATE''), (''role'', JStr ''user'')])
     = Inl (TypeError ''x.get is not a function'')"
proof -
  have c: "ConversableAgent (\<lambda>c. Inr 0) None None ''TERMINATE'' None None (JBool False) (JStr [])
             = Inr agent0"
    by (rule constructor_agent0)
  have s: "appendOaiMessage agent0 (JStr ''TERMINATE'') ''user'' peer
     = Inr (True, agent0\<lparr> oaiMessages :=
                [peer \<mapsto> [[(''content'', JStr ''TERMINATE''), (''role'', JStr ''user'')]]] \<rparr>)"
    by (simp add: appendOaiMessage_def obj_get_def agent0_def)
  from c s default_predicate_throws [OF c] show ?thesis
    by blast
qed

section \<open>The ceiling and the counter\<close>

text \<open>
  C5: for a sender with no ceiling of its own, the ceiling should be the global one. In
  the code, for the agent constructed with the global ceiling 2 and the peer never given
  a ceiling, \<open>maxConsecutiveAutoReply(peer)\<close> is \<open>undefined\<close>; with the counter at 5 and
  \<open>humanInputMode = "NEVER"\<close> the strategy compares 5 with \<open>undefined\<close>, finds the ceiling
  not reached, counts to 6 and returns non-definitive, where the global ceiling 2 would
  force \<open>"exit"\<close>.
\<close>

theorem ceiling_no_fallback:
  "maxConsecutiveAutoReply
       (agent0\<lparr> global_maxConsecutiveAutoReply := Num 2 \<rparr>) None = Some (Num 2)
   \<and> maxConsecutiveAutoReply
       (agent0\<lparr> global_maxConsecutiveAutoReply := Num 2 \<rparr>) (Some peer) = None
   \<and> checkTerminationAndHumanReply getHumanInput
       (agent0\<lparr> global_maxConsecutiveAutoReply := Num 2, humanInputMode := ''NEVER'',
                 isTerminationMsg := never_terminates,
                 consecutiveAutoReplyCounter := [peer \<mapsto> Num 5] \<rparr>)
       (Some [[(''content'', JStr ''hello''), (''role'', JStr ''user'')]]) peer
     = Inr ((False, JNull),
            agent0\<lparr> global_maxConsecutiveAutoReply := Num 2, humanInputMode := ''NEVER'',
                     isTerminationMsg := never_terminates,
                     consecutiveAutoReplyCounter := [peer \<mapsto> Num 6] \<rparr>)"
  by (simp add: maxConsecutiveAutoReply_def checkTerminationAndHumanReply_def obtain_reply_def
      agent0_def js_ge_def js_add1_def never_terminates_def)

text \<open>
  With a counter that holds a number, the strategy sets it to 0 when it answers
  definitively and adds 1 to it when it does not.
\<close>

lemma counter_step_when_set:
  assumes "checkTerminationAndHumanReply human a messages s = Inr ((final, reply), a')"
    and "consecutiveAutoReplyCounter a s = Some (Num c)"
  shows "(final \<longrightarrow> consecutiveAutoReplyCounter a' s = Some (Num 0))
       \<and> (\<not> final \<longrightarrow> consecutiveAutoReplyCounter a' s = Some (Num (c + 1)) \<and> reply = JNull)"
  using assms
  by (auto simp: checkTerminationAndHumanReply_def js_add1_def Let_def
           split: option.splits sum.splits if_splits)

text \<open>
  C6: in the branch with no reply, the ceiling not reached and no termination, the
  counter should increase by exactly 1, for every sender. In the code, for a sender
  with no counter yet (an agent fresh from the constructor, or after \<open>reset()\<close>), the
  branch stores \<open>undefined + 1\<close>, which is \<open>NaN\<close>.
\<close>

theorem counter_unset_becomes_NaN:
  "consecutiveAutoReplyCounter agent0 peer = None
   \<and> checkTerminationAndHumanReply getHumanInput
       (agent0\<lparr> humanInputMode := ''NEVER'', isTerminationMsg := never_terminates \<rparr>)
       (Some [[(''content'', JStr ''hello''), (''role'', JStr ''user'')]]) peer
     = Inr ((False, JNull),
            agent0\<lparr> humanInputMode := ''NEVER'', isTerminationMsg := never_terminates,
                     consecutiveAutoReplyCounter := [peer \<mapsto> NaN] \<rparr>)"
  by (simp add: checkTerminationAndHumanReply_def obtain_reply_def
      agent0_def js_ge_def js_add1_def never_terminates_def)

section \<open>The message store\<close>

lemma copy_truthy_obj:
  "copy_truthy (JObj ps) ks = Inr (filter (\<lambda>(k, v). truthy v) (map (\<lambda>k. (k, obj_get ps k)) ks))"
  by (induction ks) simp_all

lemma kept_content: "truthy (obj_get (kept_fields n) ''content'') = has_content n"
  by (simp add: kept_fields_def has_content_def obj_get_def)

lemma kept_function_call:
  "truthy (obj_get (kept_fields n) ''function_call'') = has_function_call n"
  by (simp add: kept_fields_def has_function_call_def obj_get_def)

lemma copy_truthy_kept:
  "copy_truthy (JObj n) [''content'', ''function_call'', ''name'', ''context''] = Inr (kept_fields n)"
  unfolding copy_truthy_obj kept_fields_def by (rule refl)

lemma appendOaiMessage_obj:
  "appendOaiMessage a (JObj n) role s =
     (if \<not> has_content n \<and> \<not> has_function_call n then Inr (False, a)
      else Inr (True,
             a\<lparr> oaiMessages :=
                  (oaiMessages a)(s \<mapsto> history a s
                     @ [kept_fields n @ [(''role'', JStr (stored_role n role))]]) \<rparr>))"
  unfolding appendOaiMessage_def
  by (simp only: jsval.case copy_truthy_kept Let_def sum.case kept_content kept_function_call
        get_prop.simps history_def stored_role_def if_distrib[of "\<lambda>r. JStr r"] prod.case)

lemma appendOaiMessage_str:
  "appendOaiMessage a (JStr t) role s = appendOaiMessage a (JObj [(''content'', JStr t)]) role s"
  by (simp add: appendOaiMessage_def)

lemma appendOaiMessage_normalized:
  "message = JStr t \<or> message = JObj ps \<Longrightarrow>
   appendOaiMessage a message role s = appendOaiMessage a (JObj (normalized message)) role s"
  by (auto simp: appendOaiMessage_str)

text \<open>
  C7: for a message that is a string or an object, \<open>_appendOaiMessage\<close> does not throw.
  It reports success exactly when the normalised message has a truthy content or a
  function call. On success the agent is changed in one place: the conversation with the
  peer has one more message at its end, made of the fields \<open>content\<close>, \<open>function_call\<close>,
  \<open>name\<close> and \<open>context\<close> of the normalised message that are truthy, followed by the role,
  which is \<open>assistant\<close> whenever a function call is present, whatever role was asked for.
  On failure the agent is unchanged. \<open>send\<close> appends under the role \<open>assistant\<close> and hands
  the message to the recipient on success; on failure it throws its error and the
  recipient is not called. \<open>receive\<close> throws on every message, also on these: it throws
  where it calls the method that appends.
\<close>

theorem append_accepts_content_or_function_call:
  assumes wf: "message = JStr t \<or> message = JObj ps"
  shows "appendOaiMessage a message role s =
           Inr (has_content (normalized message) \<or> has_function_call (normalized message),
                if has_content (normalized message) \<or> has_function_call (normalized message)
                then a\<lparr> oaiMessages :=
                         (oaiMessages a)(s \<mapsto> history a s
                            @ [kept_fields (normalized message)
                               @ [(''role'',
                                   JStr (if has_function_call (normalized message)
                                         then ''assistant''
                                         else if obj_get (normalized message) ''role''
                                                   = JStr ''function''
                                         then ''function'' else role))]]) \<rparr>
                else a)
       \<and> send recipient_receive a message s requestReply silent =
           (if has_content (normalized message) \<or> has_function_call (normalized message)
            then recipient_receive
                   (a\<lparr> oaiMessages :=
                         (oaiMessages a)(s \<mapsto> history a s
                            @ [kept_fields (normalized message)
                               @ [(''role'',
                                   JStr (if obj_get (normalized message) ''role''
                                              = JStr ''function''
                                            \<and> \<not> has_function_call (normalized message)
                                         then ''function'' else ''assistant''))]]) \<rparr>)
                   message requestReply silent
            else Inl send_invalid)
       \<and> receive generateReply_m send_m a message s requestReply silent
           = Inl (TypeError ''this._appendOAIMessage is not a function'')"
proof -
  have eq: "\<And>r. appendOaiMessage a message r s
                 = appendOaiMessage a (JObj (normalized message)) r s"
    using wf by (rule appendOaiMessage_normalized)
  have rcv: "receive generateReply_m send_m a message s requestReply silent
               = Inl (TypeError ''this._appendOAIMessage is not a function'')"
    by (simp add: receive_def processReceivedMessage_throws)
  have app: "appendOaiMessage a message role s =
           Inr (has_content (normalized message) \<or> has_function_call (normalized message),
                if has_content (normalized message) \<or> has_function_call (normalized message)
                then a\<lparr> oaiMessages :=
                         (oaiMessages a)(s \<mapsto> history a s
                            @ [kept_fields (normalized message)
                               @ [(''role'',
                                   JStr (if has_function_call (normalized message)
                                         then ''assistant''
                                         else if obj_get (normalized message) ''role''
                                                   = JStr ''function''
                                         then ''function'' else role))]]) \<rparr>
                else a)"
    unfolding eq appendOaiMessage_obj by (simp add: stored_role_def)
  have snd: "send recipient_receive a message s requestReply silent =
           (if has_content (normalized message) \<or> has_function_call (normalized message)
            then recipient_receive
                   (a\<lparr> oaiMessages :=
                         (oaiMessages a)(s \<mapsto> history a s
                            @ [kept_fields (normalized message)
                               @ [(''role'',
                                   JStr (if obj_get (normalized message) ''role''
                                              = JStr ''function''
                                            \<and> \<not> has_function_call (normalized message)
                                         then ''function'' else ''assistant''))]]) \<rparr>)
                   message requestReply silent
            else Inl send_invalid)"
    unfolding send_def eq appendOaiMessage_obj by (simp add: stored_role_def)
  from app snd rcv show ?thesis
    by (intro conjI)
qed

theorem append_accepts_content_or_function_call_witness:
  "appendOaiMessage agent0
       (JObj [(''function_call'', JObj [(''name'', JStr ''f'')]), (''extra'', JStr ''x'')])
       ''user'' peer
     = Inr (True,
            agent0\<lparr> oaiMessages :=
              [peer \<mapsto> [[(''function_call'', JObj [(''name'', JStr ''f'')]),
                          (''role'', JStr ''assistant'')]]] \<rparr>)
   \<and> appendOaiMessage agent0 (JObj [(''name'', JStr ''f'')]) ''user'' peer = Inr (False, agent0)
   \<and> send (\<lambda>b m r q. Inr b) agent0 (JObj [(''name'', JStr ''f'')]) peer None False
     = Inl send_invalid
   \<and> send (\<lambda>b m r q. Inr b) agent0 (JStr ''hello'') peer None False
     = Inr (agent0\<lparr> oaiMessages :=
              [peer \<mapsto> [[(''content'', JStr ''hello''), (''role'', JStr ''assistant'')]]] \<rparr>)"
proof -
  let ?m1 = "JObj [(''function_call'', JObj [(''name'', JStr ''f'')]), (''extra'', JStr ''x'')]"
  let ?m2 = "JObj [(''name'', JStr ''f'')]"
  let ?m3 = "JStr ''hello''"
  have w1: "?m1 = JStr [] \<or> ?m1 = JObj [(''function_call'', JObj [(''name'', JStr ''f'')]),
                                          (''extra'', JStr ''x'')]"
    by simp
  have w2: "?m2 = JStr [] \<or> ?m2 = JObj [(''name'', JStr ''f'')]"
    by simp
  have w3: "?m3 = JStr ''hello'' \<or> ?m3 = JObj []"
    by simp
  have hist: "history agent0 peer = []" "oaiMessages agent0 = Map.empty"
    by (simp_all add: history_def agent0_def)
  note t1 = append_accepts_content_or_function_call
              [OF w1, of agent0 "''user''" peer, THEN conjunct1]
  note t2 = append_accepts_content_or_function_call
              [OF w2, of agent0 "''user''" peer "\<lambda>b m r q. Inr b" None False]
  note t3 = append_accepts_content_or_function_call
              [OF w3, of agent0 "''user''" peer "\<lambda>b m r q. Inr b" None False,
               THEN conjunct2, THEN conjunct1]
  from t1 have p1: "appendOaiMessage agent0 ?m1 ''user'' peer
     = Inr (True,
            agent0\<lparr> oaiMessages :=
              [peer \<mapsto> [[(''function_call'', JObj [(''name'', JStr ''f'')]),
                          (''role'', JStr ''assistant'')]]] \<rparr>)"
    by (simp add: has_function_call_def has_content_def obj_get_def kept_fields_def hist)
  from t2 [THEN conjunct1] have p2:
    "appendOaiMessage agent0 ?m2 ''user'' peer = Inr (False, agent0)"
    by (simp add: has_function_call_def has_content_def obj_get_def)
  from t2 [THEN conjunct2, THEN conjunct1] have p3:
    "send (\<lambda>b m r q. Inr b) agent0 ?m2 peer None False = Inl send_invalid"
    by (simp add: has_function_call_def has_content_def obj_get_def)
  from t3 have p4: "send (\<lambda>b m r q. Inr b) agent0 ?m3 peer None False
     = Inr (agent0\<lparr> oaiMessages :=
              [peer \<mapsto> [[(''content'', JStr ''hello''), (''role'', JStr ''assistant'')]]] \<rparr>)"
    by (simp add: has_function_call_def has_content_def obj_get_def kept_fields_def hist)
  from p1 p2 p3 p4 show ?thesis
    by (intro conjI)
qed

section \<open>The scan window of the code-execution strategy\<close>

lemma count_user_backwards_takeWhile:
  "count_user_backwards ms = length (takeWhile is_user ms)"
  by (induction ms) (auto simp: is_user_def obj_get_def split: option.splits)

lemma messagesToScan_auto:
  "messagesToScan Auto messages = int (trailing_user_count messages)"
  by (simp add: messagesToScan_def trailing_user_count_def count_user_backwards_takeWhile)

lemma trailing_user_count_le: "trailing_user_count messages \<le> length messages"
  unfolding trailing_user_count_def
  using length_takeWhile_le [of is_user "rev messages"] by simp

lemma scan_start_auto:
  "scan_start Auto messages = length messages - trailing_user_count messages"
  using trailing_user_count_le [of messages]
  by (simp add: scan_start_def messagesToScan_auto)

lemma trailing_window:
  assumes "list_all is_user window" "earlier = [] \<or> \<not> is_user (last earlier)"
  shows "trailing_user_count (earlier @ window) = length window"
proof -
  have e: "takeWhile is_user (rev earlier) = []"
    using assms(2) by (cases earlier rule: rev_cases) auto
  have "takeWhile is_user (rev window @ rev earlier) = rev window @ takeWhile is_user (rev earlier)"
    using assms(1) by (intro takeWhile_append2) (simp add: list_all_iff)
  then show ?thesis
    by (simp add: trailing_user_count_def e)
qed

text \<open>
  The scan goes through the window from its oldest message: it passes over the messages
  without code and stops at the first message with code, whose blocks it hands to
  \<open>executeCodeBlocks\<close>; a window without code gives the non-definitive result.
\<close>

lemma scan_loop_skips:
  "list_all (without_code extractCode UNKNOWN) skipped \<Longrightarrow>
   scan_loop extractCode UNKNOWN inferLang a (skipped @ later)
     = scan_loop extractCode UNKNOWN inferLang a later"
  by (induction skipped) (auto simp: without_code_def Let_def)

lemma scan_loop_nothing_found:
  "list_all (without_code extractCode UNKNOWN) window \<Longrightarrow>
   scan_loop extractCode UNKNOWN inferLang a window = Inr ((False, JNull), a)"
  using scan_loop_skips [of extractCode UNKNOWN window inferLang a "[]"] by simp

lemma scan_loop_found:
  assumes "\<not> without_code extractCode UNKNOWN m"
  shows "scan_loop extractCode UNKNOWN inferLang a (m # later) =
           (case executeCodeBlocks inferLang a (extractCode (obj_get m ''content'')) of
              Inl e \<Rightarrow> Inl e
            | Inr ((exitcode, logs), a') \<Rightarrow> Inr ((True, execution_reply exitcode logs), a'))"
  using assms by (auto simp: Let_def without_code_def)

lemma block_found_anywhere_in_window:
  assumes "list_all (without_code extractCode UNKNOWN) skipped"
    and "\<not> without_code extractCode UNKNOWN m"
  shows "scan_loop extractCode UNKNOWN inferLang a (skipped @ m # later) =
           (case executeCodeBlocks inferLang a (extractCode (obj_get m ''content'')) of
              Inl e \<Rightarrow> Inl e
            | Inr ((exitcode, logs), a') \<Rightarrow> Inr ((True, execution_reply exitcode logs), a'))"
  unfolding scan_loop_skips [OF assms(1)] scan_loop_found [OF assms(2)] by (rule refl)

text \<open>
  \<open>executeCodeBlocks\<close> runs no block: at the first block in a language of \<open>runCode\<close> the
  call spreads the configuration object and throws; a block in another language adds
  \<open>unknown language\<close> to the logs and sets the exit code 1.
\<close>

lemma executeCodeBlocks_loop_step:
  "executeCodeBlocks_loop inferLang a ((lang, code) # rest) logsAll exitcode =
     (if runner_language (inferredLang inferLang (lang, code)) then Inl not_iterable
      else executeCodeBlocks_loop inferLang a rest
             (logsAll @ [NL] @ ''unknown language '' @ inferredLang inferLang (lang, code))
             (JNum 1))"
proof -
  define l where "l = inferredLang inferLang (lang, code)"
  have l: "(if lang \<noteq> [] then lang else inferLang code) = l"
    by (simp add: l_def inferredLang_def)
  have sc: "spread_config (codeExecutionConfig a) = Inl not_iterable"
    by (cases "codeExecutionConfig a") simp_all
  show ?thesis
    unfolding executeCodeBlocks_loop.simps Let_def l l_def [symmetric] sc runner_language_def
    by (simp add: obj_get_def)
qed

lemma executeCodeBlocks_loop_runner:
  "runner_language (inferredLang inferLang (lang, code)) \<Longrightarrow>
   executeCodeBlocks_loop inferLang a ((lang, code) # rest) logsAll exitcode = Inl not_iterable"
  unfolding executeCodeBlocks_loop_step by simp

lemma executeCodeBlocks_loop_other:
  "\<not> runner_language (inferredLang inferLang (lang, code)) \<Longrightarrow>
   executeCodeBlocks_loop inferLang a ((lang, code) # rest) logsAll exitcode
     = executeCodeBlocks_loop inferLang a rest
         (logsAll @ [NL] @ ''unknown language '' @ inferredLang inferLang (lang, code)) (JNum 1)"
  unfolding executeCodeBlocks_loop_step by simp

lemma executeCodeBlocks_loop_never_runs:
  "executeCodeBlocks_loop inferLang a blocks logsAll exitcode =
     (if list_ex (\<lambda>b. runner_language (inferredLang inferLang b)) blocks then Inl not_iterable
      else Inr ((if blocks = [] then exitcode else JNum 1,
                 logsAll @ concat (map (\<lambda>b. [NL] @ ''unknown language '' @ inferredLang inferLang b)
                                     blocks)), a))"
proof (induction blocks arbitrary: logsAll exitcode)
  case Nil
  show ?case by simp
next
  case (Cons b blocks)
  obtain lang code where b: "b = (lang, code)" by (cases b)
  show ?case
  proof (cases "runner_language (inferredLang inferLang (lang, code))")
    case True
    then show ?thesis
      unfolding b by (simp add: executeCodeBlocks_loop_runner del: executeCodeBlocks_loop.simps)
  next
    case False
    then show ?thesis
      unfolding b executeCodeBlocks_loop_other [OF False] Cons.IH
      by simp
  qed
qed

lemma executeCodeBlocks_never_runs:
  "executeCodeBlocks inferLang a blocks =
     (if list_ex (\<lambda>b. runner_language (inferredLang inferLang b)) blocks then Inl not_iterable
      else Inr ((if blocks = [] then JNum 0 else JNum 1,
                 concat (map (\<lambda>b. [NL] @ ''unknown language '' @ inferredLang inferLang b) blocks)),
                a))"
  unfolding executeCodeBlocks_def executeCodeBlocks_loop_never_runs by simp

text \<open>
  C8: with \<open>lastNMessages = "auto"\<close>, when the last three messages have role \<open>user\<close>, the
  message before them (if any) has not, and the oldest of the three holds a code block,
  that block should be found and executed. In the code the window is these three
  messages and the block is found, but when the language of the block is one that
  \<open>executeCodeBlocks\<close> hands to \<open>runCode\<close> (\<open>bash\<close>, \<open>shell\<close>, \<open>sh\<close>, \<open>python\<close>, \<open>Python\<close>),
  the strategy throws the \<open>TypeError\<close> of the spread of the configuration object: the
  block is not executed and no reply is made.
\<close>

theorem auto_window_block_found_but_not_run:
  assumes "messages = earlier @ [m1, m2, m3]"
    and "is_user m1" and "is_user m2" and "is_user m3"
    and "earlier = [] \<or> \<not> is_user (last earlier)"
    and "\<not> without_code extractCode UNKNOWN m1"
    and "extractCode (obj_get m1 ''content'') = block # rest"
    and "runner_language (inferredLang inferLang block)"
    and "(case config_arg of Some c \<Rightarrow> c | None \<Rightarrow> codeExecutionConfig a)
            = CodeExecObj (Some Auto) d"
  shows "messagesToScan Auto messages = 3
       \<and> drop (scan_start Auto messages) messages = [m1, m2, m3]
       \<and> generateCodeExecutionReply extractCode UNKNOWN inferLang a (Some messages) sender
            config_arg = Inl not_iterable"
proof -
  have w: "list_all is_user [m1, m2, m3]"
    using assms(2-4) by simp
  have three: "trailing_user_count (earlier @ [m1, m2, m3]) = 3"
    using trailing_window [OF w assms(5)] by simp
  have n: "messagesToScan Auto messages = 3"
    unfolding messagesToScan_auto assms(1) three by simp
  have window: "drop (scan_start Auto messages) messages = [m1, m2, m3]"
    unfolding scan_start_auto assms(1) three by simp
  obtain lang code where b: "block = (lang, code)" by (cases block)
  have run: "executeCodeBlocks inferLang a (extractCode (obj_get m1 ''content'')) = Inl not_iterable"
    unfolding assms(7) executeCodeBlocks_def b
    using assms(8) unfolding b by (rule executeCodeBlocks_loop_runner)
  have found: "scan_loop extractCode UNKNOWN inferLang a [m1, m2, m3] = Inl not_iterable"
    unfolding scan_loop_found [OF assms(6)] run by simp
  have reply: "generateCodeExecutionReply extractCode UNKNOWN inferLang a (Some messages) sender
            config_arg = Inl not_iterable"
    unfolding generateCodeExecutionReply_def assms(9)
    by (simp add: window found del: scan_loop.simps)
  from n window reply show ?thesis
    by (intro conjI)
qed

theorem auto_window_block_found_but_not_run_witness:
  "is_user msg_code \<and> is_user msg_ok \<and> is_user msg_thanks \<and> \<not> is_user msg_assistant
   \<and> extractCode_sample (obj_get msg_code ''content'') = [(''python'', ''print(1)'')]
   \<and> without_code extractCode_sample ''unknown'' msg_ok
   \<and> without_code extractCode_sample ''unknown'' msg_thanks
   \<and> messagesToScan Auto [msg_assistant, msg_code, msg_ok, msg_thanks] = 3
   \<and> drop (scan_start Auto [msg_assistant, msg_code, msg_ok, msg_thanks])
        [msg_assistant, msg_code, msg_ok, msg_thanks] = [msg_code, msg_ok, msg_thanks]
   \<and> generateCodeExecutionReply extractCode_sample ''unknown'' (\<lambda>c. ''python'') agent_auto
        (Some [msg_assistant, msg_code, msg_ok, msg_thanks]) peer None = Inl not_iterable"
proof -
  let ?ms = "[msg_assistant, msg_code, msg_ok, msg_thanks]"
  have u: "is_user msg_code" "is_user msg_ok" "is_user msg_thanks" "\<not> is_user msg_assistant"
    by (simp_all add: is_user_def msg_code_def msg_ok_def msg_thanks_def msg_assistant_def)
  have ex: "extractCode_sample (obj_get msg_code ''content'') = [(''python'', ''print(1)'')]"
    by (simp add: msg_code_def obj_get_def extractCode_sample_def)
  have wo: "without_code extractCode_sample ''unknown'' msg_ok"
      "without_code extractCode_sample ''unknown'' msg_thanks"
    by (simp_all add: without_code_def msg_ok_def msg_thanks_def obj_get_def
          extractCode_sample_def)
  have h1: "?ms = [msg_assistant] @ [msg_code, msg_ok, msg_thanks]"
    by simp
  have h5: "[msg_assistant] = [] \<or> \<not> is_user (last [msg_assistant])"
    using u(4) by simp
  have h6: "\<not> without_code extractCode_sample ''unknown'' msg_code"
    by (simp add: without_code_def msg_code_def obj_get_def extractCode_sample_def)
  have h8: "runner_language (inferredLang (\<lambda>c. ''python'') (''python'', ''print(1)''))"
    by (simp add: runner_language_def inferredLang_def)
  have h9: "(case None of Some c \<Rightarrow> c | None \<Rightarrow> codeExecutionConfig agent_auto)
               = CodeExecObj (Some Auto) JUndefined"
    by (simp add: agent_auto_def)
  note t = auto_window_block_found_but_not_run
             [OF h1 u(1) u(2) u(3) h5 h6 ex h8 h9, of peer]
  from t have n: "messagesToScan Auto ?ms = 3"
    by (rule conjunct1)
  from t have win: "drop (scan_start Auto ?ms) ?ms = [msg_code, msg_ok, msg_thanks]"
    by (elim conjE)
  from t have rep: "generateCodeExecutionReply extractCode_sample ''unknown'' (\<lambda>c. ''python'')
        agent_auto (Some ?ms) peer None = Inl not_iterable"
    by (elim conjE)
  from u ex wo n win rep show ?thesis
    by (intro conjI)
qed

section \<open>Function execution\<close>

lemma format_args_object: "formatJsonStr args_object = args_object"
  by (simp add: formatJsonStr_def args_object_def formatJsonStr_loop_id)

lemma format_args_empty_array: "formatJsonStr ''[]'' = ''[]''"
  by (simp add: formatJsonStr_def formatJsonStr_loop_id)

text \<open>
  C2: a function \<open>f(a, b)\<close> returning \<open>a + b\<close>, called with the argument string
  \<^verbatim>\<open>{"a":2,"b":3}\<close>, should give success and the content \<open>"5"\<close>. In the code the decoded
  arguments are an object, \<open>func(...args)\<close> spreads it, an object is not iterable, and
  the \<open>TypeError\<close> is caught: whatever function is bound to \<open>f\<close>, the result is failure
  with the error as content, and the function is never entered.
\<close>

theorem executeFunction_object_arguments_fail:
  "functionMap a ''f'' = Some func \<Longrightarrow>
   JSON_parse args_object = Inr (JObj [(''a'', JNum 2), (''b'', JNum 3)]) \<Longrightarrow>
   executeFunction JSON_parse Object_prototype a
       (JObj [(''name'', JStr ''f''), (''args'', JStr args_object)])
     = Inr (False,
            [(''name'', JStr ''f''), (''role'', JStr ''function''),
             (''content'', JStr ''Error: TypeError: Spread syntax requires ...iterable[Symbol.iterator] to be a function'')])"
proof -
  assume f: "functionMap a ''f'' = Some func"
    and p: "JSON_parse args_object = Inr (JObj [(''a'', JNum 2), (''b'', JNum 3)])"
  have ne: "args_object \<noteq> []"
    by (simp add: args_object_def)
  have o: "function_call_outcome JSON_parse (functionMap_read Object_prototype a ''f'') ''f''
             (JObj [(''name'', JStr ''f''), (''args'', JStr args_object)])
           = Inr (False, JStr (''Error: '' @ error_string not_iterable))"
    by (simp add: function_call_outcome_def functionMap_read_def f obj_get_def ne
          format_args_object p)
  show ?thesis
    unfolding executeFunction_def
    by (simp add: obj_get_def String_of_def o function_result_def not_iterable_def)
qed

theorem executeFunction_object_arguments_fail_witness:
  "functionMap agent_f ''f'' = Some function_f
   \<and> JSON_parse_table args_object = Inr (JObj [(''a'', JNum 2), (''b'', JNum 3)])
   \<and> executeFunction JSON_parse_table Object_prototype_table agent_f
        (JObj [(''name'', JStr ''f''), (''args'', JStr args_object)])
     = Inr (False,
            [(''name'', JStr ''f''), (''role'', JStr ''function''),
             (''content'', JStr ''Error: TypeError: Spread syntax requires ...iterable[Symbol.iterator] to be a function'')])"
proof -
  have f: "functionMap agent_f ''f'' = Some function_f"
    by (simp add: agent_f_def)
  have p: "JSON_parse_table args_object = Inr (JObj [(''a'', JNum 2), (''b'', JNum 3)])"
    by (simp add: JSON_parse_table_def)
  from f p executeFunction_object_arguments_fail
             [where a = agent_f and func = function_f and JSON_parse = JSON_parse_table
                and Object_prototype = Object_prototype_table]
  show ?thesis
    by blast
qed

text \<open>
  C10: a name that the function map does not bind should give failure with the content
  \<open>not found\<close>. In the code the name \<open>toString\<close>, which the function map does not bind and
  \<open>canExecuteFunction\<close> refuses, is read through to \<open>Object.prototype.toString\<close>; with the
  argument string \<^verbatim>\<open>[]\<close> that member is called and the result is success, with the
  content \<open>[object Undefined]\<close>.
\<close>

theorem executeFunction_inherited_name_succeeds:
  "functionMap a ''toString'' = None \<Longrightarrow>
   Object_prototype ''toString'' = Some toString \<Longrightarrow>
   toString [] = Inr (JStr ''[object Undefined]'') \<Longrightarrow>
   JSON_parse ''[]'' = Inr (JArr []) \<Longrightarrow>
   \<not> canExecuteFunction a ''toString''
   \<and> executeFunction JSON_parse Object_prototype a
        (JObj [(''name'', JStr ''toString''), (''args'', JStr ''[]'')])
     = Inr (True,
            [(''name'', JStr ''toString''), (''role'', JStr ''function''),
             (''content'', JStr ''[object Undefined]'')])"
proof -
  assume n: "functionMap a ''toString'' = None"
    and t: "Object_prototype ''toString'' = Some toString"
    and r: "toString [] = Inr (JStr ''[object Undefined]'')"
    and p: "JSON_parse ''[]'' = Inr (JArr [])"
  have o: "function_call_outcome JSON_parse (functionMap_read Object_prototype a ''toString'')
             ''toString'' (JObj [(''name'', JStr ''toString''), (''args'', JStr ''[]'')])
           = Inr (True, JStr ''[object Undefined]'')"
    by (simp add: function_call_outcome_def functionMap_read_def n t obj_get_def
          format_args_empty_array p r)
  have e: "executeFunction JSON_parse Object_prototype a
        (JObj [(''name'', JStr ''toString''), (''args'', JStr ''[]'')])
     = Inr (True,
            [(''name'', JStr ''toString''), (''role'', JStr ''function''),
             (''content'', JStr ''[object Undefined]'')])"
    unfolding executeFunction_def
    by (simp add: obj_get_def String_of_def o function_result_def)
  from n e show ?thesis
    by (simp add: canExecuteFunction_def)
qed

theorem executeFunction_inherited_name_succeeds_witness:
  "functionMap agent0 ''toString'' = None
   \<and> \<not> canExecuteFunction agent0 ''toString''
   \<and> executeFunction JSON_parse_table Object_prototype_table agent0
        (JObj [(''name'', JStr ''toString''), (''args'', JStr ''[]'')])
     = Inr (True,
            [(''name'', JStr ''toString''), (''role'', JStr ''function''),
             (''content'', JStr ''[object Undefined]'')])"
proof -
  have n: "functionMap agent0 ''toString'' = None"
    by (simp add: agent0_def)
  have t: "Object_prototype_table ''toString'' = Some (\<lambda>argv. Inr (JStr ''[object Undefined]''))"
    by (simp add: Object_prototype_table_def)
  have r: "(\<lambda>argv. Inr (JStr ''[object Undefined]'')) [] = (Inr (JStr ''[object Undefined]'') :: js_error + jsval)"
    by simp
  have p: "JSON_parse_table ''[]'' = Inr (JArr [])"
    by (simp add: JSON_parse_table_def args_object_def)
  from n executeFunction_inherited_name_succeeds
           [where a = agent0 and Object_prototype = Object_prototype_table
              and toString = "\<lambda>argv. Inr (JStr ''[object Undefined]'')"
              and JSON_parse = JSON_parse_table, OF n t r p]
  show ?thesis
    by blast
qed

text \<open>
  The failures that \<open>executeFunction\<close> turns into a result: a name bound neither by the
  function map nor by \<open>Object.prototype\<close>, an argument string that \<open>JSON.parse\<close> rejects,
  and a function that throws.
\<close>

lemma executeFunction_not_found:
  "functionMap a k = None \<Longrightarrow> Object_prototype k = None \<Longrightarrow>
   executeFunction JSON_parse Object_prototype a (JObj [(''name'', JStr k)])
     = Inr (False, [(''name'', JStr k), (''role'', JStr ''function''),
                    (''content'', JStr (''Error: Function '' @ k @ '' not found.''))])"
  by (cases "k = []")
     (simp_all add: executeFunction_def obj_get_def String_of_def function_call_outcome_def
        functionMap_read_def function_result_def Let_def)

lemma executeFunction_parse_error:
  "functionMap a k = Some func \<Longrightarrow> k \<noteq> [] \<Longrightarrow> jstr \<noteq> [] \<Longrightarrow>
   JSON_parse (formatJsonStr jstr) = Inl e \<Longrightarrow>
   executeFunction JSON_parse Object_prototype a (JObj [(''name'', JStr k), (''args'', JStr jstr)])
     = Inr (False, [(''name'', JStr k), (''role'', JStr ''function''),
                    (''content'', JStr (''Error: '' @ error_string e @ [NL]
                                        @ '' Your argument should follow JSON format.''))])"
  by (simp add: executeFunction_def obj_get_def String_of_def function_call_outcome_def
      functionMap_read_def function_result_def)

lemma executeFunction_function_throws:
  "functionMap a k = Some func \<Longrightarrow> k \<noteq> [] \<Longrightarrow> jstr \<noteq> [] \<Longrightarrow>
   JSON_parse (formatJsonStr jstr) = Inr (JArr argv) \<Longrightarrow> func argv = Inl e \<Longrightarrow>
   executeFunction JSON_parse Object_prototype a (JObj [(''name'', JStr k), (''args'', JStr jstr)])
     = Inr (False, [(''name'', JStr k), (''role'', JStr ''function''),
                    (''content'', JStr (''Error: '' @ error_string e))])"
  by (simp add: executeFunction_def obj_get_def String_of_def function_call_outcome_def
      functionMap_read_def function_result_def)

text \<open>
  The failures that leave \<open>executeFunction\<close> as an exception, thrown outside its \<open>try\<close>
  blocks: arguments that are not a string, no function call at all, and a result of the
  function that \<open>String\<close> cannot convert.
\<close>

lemma executeFunction_arguments_not_a_string:
  "functionMap a k = Some func \<Longrightarrow> k \<noteq> [] \<Longrightarrow>
   executeFunction JSON_parse Object_prototype a
       (JObj [(''name'', JStr k), (''args'', JObj ps)])
     = Inl (TypeError ''jstr.split is not a function'')"
  by (simp add: executeFunction_def obj_get_def String_of_def function_call_outcome_def
      functionMap_read_def)

lemma executeFunction_no_call:
  "executeFunction JSON_parse Object_prototype a JUndefined
     = Inl (TypeError (''Cannot read properties of undefined (reading '' @ [APOS] @ ''name''
                       @ [APOS] @ '')''))"
  by (simp add: executeFunction_def)

lemma executeFunction_result_not_convertible:
  "functionMap a k = Some func \<Longrightarrow> k \<noteq> [] \<Longrightarrow>
   JSON_parse ''[]'' = Inr (JArr []) \<Longrightarrow> func [] = Inr (JObj [(''toString'', JNull)]) \<Longrightarrow>
   executeFunction JSON_parse Object_prototype a (JObj [(''name'', JStr k), (''args'', JStr ''[]'')])
     = Inl (TypeError ''Cannot convert object to primitive value'')"
  by (simp add: executeFunction_def obj_get_def String_of_def function_call_outcome_def
      functionMap_read_def format_args_empty_array)

end
